theory Spec2Isabelle
  imports Complex_Main
begin

section \<open>Strings, time and errors\<close>

text \<open>
  Go strings are byte sequences, modelled as \<open>string\<close>. Go's typed string enumerations
  (\<open>AlertStatus\<close>, \<open>ActionStatus\<close>, \<open>RiskLevel\<close>, \<open>PolicyMode\<close>, ...) admit every
  string value, so they stay strings here and the named constants are abbreviations of
  their literals. A \<open>time.Time\<close> is a natural number (a clock reading), a \<open>*time.Time\<close>
  an optional one. A Go \<open>error\<close> is represented by its message.
\<close>

type_synonym time = nat
type_synonym err = string

text \<open>
  \<open>strings.ToLower\<close> on the ASCII letters; every other byte is left as it is, so the model
  agrees with the code on ASCII texts (the lower-case forms of letters outside ASCII are not
  modelled). The whitelist entries and the commands evaluated below are ASCII texts.
\<close>

definition toLowerByte :: "char \<Rightarrow> char" where
  "toLowerByte c =
     (case map_of (zip ''ABCDEFGHIJKLMNOPQRSTUVWXYZ'' ''abcdefghijklmnopqrstuvwxyz'') c of
        Some l \<Rightarrow> l
      | None \<Rightarrow> c)"

definition ToLower :: "string \<Rightarrow> string" where
  "ToLower s = map toLowerByte s"

text \<open>\<open>strings.Join\<close>, \<open>strings.HasPrefix\<close>, \<open>strings.TrimPrefix\<close>.\<close>

fun Join :: "string list \<Rightarrow> string \<Rightarrow> string" where
  "Join [] sep = []"
| "Join [x] sep = x"
| "Join (x # y # ys) sep = x @ sep @ Join (y # ys) sep"

definition HasPrefix :: "string \<Rightarrow> string \<Rightarrow> bool" where
  "HasPrefix s p = (take (length p) s = p)"

definition TrimPrefix :: "string \<Rightarrow> string \<Rightarrow> string" where
  "TrimPrefix s p = (if HasPrefix s p then drop (length p) s else s)"

text \<open>
  \<open>strings.Fields\<close> splits its argument around each run of white space, white space being
  the runes of \<open>unicode.IsSpace\<close>: U+0009 to U+000D, U+0020, U+0085, U+00A0, U+1680, U+2000
  to U+200A, U+2028, U+2029, U+202F, U+205F and U+3000. A Go string is a sequence of bytes
  that is read as UTF-8, so \<open>whiteSpace\<close> lists the UTF-8 encodings of these runes. The first
  byte of an encoding of two or three bytes is a lead byte, which never stands inside the
  encoding of another rune (a byte that starts no valid encoding is read as U+FFFD, one byte
  wide, and is no white space): the decoder meets a white-space rune at a position exactly
  when one of the encodings starts there. \<open>spaceWidth s\<close> is the number of bytes of the
  white-space rune at the start of \<open>s\<close>, and 0 when there is none.
\<close>

definition whiteSpace :: "string list" where
  "whiteSpace =
     [[CHR 0x09], [CHR 0x0A], [CHR 0x0B], [CHR 0x0C], [CHR 0x0D], [CHR 0x20],
      [CHR 0xC2, CHR 0x85], [CHR 0xC2, CHR 0xA0],
      [CHR 0xE1, CHR 0x9A, CHR 0x80],
      [CHR 0xE2, CHR 0x80, CHR 0x80], [CHR 0xE2, CHR 0x80, CHR 0x81],
      [CHR 0xE2, CHR 0x80, CHR 0x82], [CHR 0xE2, CHR 0x80, CHR 0x83],
      [CHR 0xE2, CHR 0x80, CHR 0x84], [CHR 0xE2, CHR 0x80, CHR 0x85],
      [CHR 0xE2, CHR 0x80, CHR 0x86], [CHR 0xE2, CHR 0x80, CHR 0x87],
      [CHR 0xE2, CHR 0x80, CHR 0x88], [CHR 0xE2, CHR 0x80, CHR 0x89],
      [CHR 0xE2, CHR 0x80, CHR 0x8A],
      [CHR 0xE2, CHR 0x80, CHR 0xA8], [CHR 0xE2, CHR 0x80, CHR 0xA9],
      [CHR 0xE2, CHR 0x80, CHR 0xAF],
      [CHR 0xE2, CHR 0x81, CHR 0x9F],
      [CHR 0xE3, CHR 0x80, CHR 0x80]]"

definition spaceWidth :: "string \<Rightarrow> nat" where
  "spaceWidth s =
     (case find (\<lambda>encoding. HasPrefix s encoding) whiteSpace of
        Some encoding \<Rightarrow> length encoding
      | None \<Rightarrow> 0)"

text \<open>
  \<open>fieldsFrom cur s\<close>: the fields of the rest \<open>s\<close> of the argument, \<open>cur\<close> being the bytes of
  the field that is open at this point.
\<close>

fun fieldsFrom :: "string \<Rightarrow> string \<Rightarrow> string list" where
  "fieldsFrom cur [] = (if cur = [] then [] else [cur])"
| "fieldsFrom cur (c # cs) =
     (if spaceWidth (c # cs) > 0 then
        (if cur = [] then fieldsFrom [] (drop (spaceWidth (c # cs) - 1) cs)
         else cur # fieldsFrom [] (drop (spaceWidth (c # cs) - 1) cs))
      else fieldsFrom (cur @ [c]) cs)"

definition Fields :: "string \<Rightarrow> string list" where
  "Fields s = fieldsFrom [] s"

text \<open>\<open>strings.Contains\<close>.\<close>

fun Contains :: "string \<Rightarrow> string \<Rightarrow> bool" where
  "Contains [] sub = (sub = [])"
| "Contains (c # cs) sub = (HasPrefix (c # cs) sub \<or> Contains cs sub)"

text \<open>
  The \<open>%q\<close> verb of \<open>fmt\<close>: the text between double quotes. The escapes that Go writes
  inside for a double quote, a backslash and a non-printable character are not modelled, so
  the model agrees with the code on printable texts without these two characters. No
  property below that ranges over all texts reads a formatted message; the messages
  evaluated at sample inputs quote such texts only.
\<close>

definition quoted :: "string \<Rightarrow> string" where
  "quoted s = CHR 0x22 # s @ [CHR 0x22]"

section \<open>Domain model (internal/domain/model)\<close>

subsection \<open>Alert\<close>

abbreviation AlertStatusReceived :: string where "AlertStatusReceived \<equiv> ''received''"
abbreviation AlertStatusAnalyzing :: string where "AlertStatusAnalyzing \<equiv> ''analyzing''"
abbreviation AlertStatusAnalyzed :: string where "AlertStatusAnalyzed \<equiv> ''analyzed''"
abbreviation AlertStatusActing :: string where "AlertStatusActing \<equiv> ''acting''"
abbreviation AlertStatusResolved :: string where "AlertStatusResolved \<equiv> ''resolved''"
abbreviation AlertStatusFailed :: string where "AlertStatusFailed \<equiv> ''failed''"
abbreviation AlertStatusDuplicate :: string where "AlertStatusDuplicate \<equiv> ''duplicate''"
abbreviation AlertStatusSilenced :: string where "AlertStatusSilenced \<equiv> ''silenced''"

record Alert =
  Alert_ID :: string
  Alert_ExternalID :: string
  Alert_Fingerprint :: string
  Alert_Source :: string
  Alert_Status :: string
  Alert_Severity :: string
  Alert_Title :: string
  Alert_Description :: string
  Alert_Environment :: string
  Alert_Namespace :: string
  Alert_Resource :: string
  Alert_Labels :: "(string \<times> string) list"
  Alert_Annotations :: "(string \<times> string) list"
  Alert_RawPayload :: string
  Alert_ThreadID :: string
  Alert_CreatedAt :: time
  Alert_UpdatedAt :: time
  Alert_ResolvedAt :: "time option"

definition Alert_WithStatus :: "Alert \<Rightarrow> string \<Rightarrow> time \<Rightarrow> Alert" where
  "Alert_WithStatus a status now = a\<lparr>Alert_Status := status, Alert_UpdatedAt := now\<rparr>"

definition Alert_WithThreadID :: "Alert \<Rightarrow> string \<Rightarrow> time \<Rightarrow> Alert" where
  "Alert_WithThreadID a threadID now = a\<lparr>Alert_ThreadID := threadID, Alert_UpdatedAt := now\<rparr>"

definition Alert_Resolve :: "Alert \<Rightarrow> time \<Rightarrow> Alert" where
  "Alert_Resolve a now =
     a\<lparr>Alert_Status := AlertStatusResolved, Alert_ResolvedAt := Some now, Alert_UpdatedAt := now\<rparr>"

definition Alert_IsTerminal :: "Alert \<Rightarrow> bool" where
  "Alert_IsTerminal a =
     (Alert_Status a \<in> set [AlertStatusResolved, AlertStatusFailed, AlertStatusDuplicate,
                              AlertStatusSilenced])"

subsection \<open>Action\<close>

abbreviation ActionStatusPlanned :: string where "ActionStatusPlanned \<equiv> ''planned''"
abbreviation ActionStatusPending :: string where "ActionStatusPending \<equiv> ''pending''"
abbreviation ActionStatusApproved :: string where "ActionStatusApproved \<equiv> ''approved''"
abbreviation ActionStatusRejected :: string where "ActionStatusRejected \<equiv> ''rejected''"
abbreviation ActionStatusExecuting :: string where "ActionStatusExecuting \<equiv> ''executing''"
abbreviation ActionStatusCompleted :: string where "ActionStatusCompleted \<equiv> ''completed''"
abbreviation ActionStatusFailed :: string where "ActionStatusFailed \<equiv> ''failed''"
abbreviation ActionStatusRolledBack :: string where "ActionStatusRolledBack \<equiv> ''rolled_back''"

abbreviation ActionTypeKubectl :: string where "ActionTypeKubectl \<equiv> ''kubectl''"
abbreviation ActionTypeRestart :: string where "ActionTypeRestart \<equiv> ''restart''"
abbreviation ActionTypeScale :: string where "ActionTypeScale \<equiv> ''scale''"
abbreviation ActionTypeDeletePod :: string where "ActionTypeDeletePod \<equiv> ''delete_pod''"
abbreviation ActionTypeExec :: string where "ActionTypeExec \<equiv> ''exec''"
abbreviation ActionTypeManual :: string where "ActionTypeManual \<equiv> ''manual''"

abbreviation RiskLow :: string where "RiskLow \<equiv> ''low''"
abbreviation RiskMedium :: string where "RiskMedium \<equiv> ''medium''"
abbreviation RiskHigh :: string where "RiskHigh \<equiv> ''high''"
abbreviation RiskCritical :: string where "RiskCritical \<equiv> ''critical''"

record Action =
  Action_ID :: string
  Action_AnalysisID :: string
  Action_AlertID :: string
  Action_Type :: string
  Action_Status :: string
  Action_Description :: string
  Action_Commands :: "string list"
  Action_Risk :: string
  Action_Reversible :: bool
  Action_Output :: string
  Action_ErrorMessage :: string
  Action_ApprovedBy :: string
  Action_ApprovedAt :: "time option"
  Action_ExecutedAt :: "time option"
  Action_CompletedAt :: "time option"
  Action_Environment :: string
  Action_Namespace :: string
  Action_TargetResource :: string
  Action_Metadata :: "(string \<times> string) list"
  Action_CreatedAt :: time
  Action_UpdatedAt :: time

text \<open>\<open>NewAction\<close>; the identifier drawn by \<open>generateID\<close> and the clock reading are arguments.\<close>

definition NewAction ::
  "string \<Rightarrow> time \<Rightarrow> string \<Rightarrow> string \<Rightarrow> string \<Rightarrow> string \<Rightarrow> string list \<Rightarrow> string \<Rightarrow> Action" where
  "NewAction newID now analysisID alertID actionType description commands risk =
     \<lparr>Action_ID = newID, Action_AnalysisID = analysisID, Action_AlertID = alertID,
      Action_Type = actionType, Action_Status = ActionStatusPlanned,
      Action_Description = description, Action_Commands = commands, Action_Risk = risk,
      Action_Reversible = False, Action_Output = [], Action_ErrorMessage = [],
      Action_ApprovedBy = [], Action_ApprovedAt = None, Action_ExecutedAt = None,
      Action_CompletedAt = None, Action_Environment = [], Action_Namespace = [],
      Action_TargetResource = [], Action_Metadata = [], Action_CreatedAt = now,
      Action_UpdatedAt = now\<rparr>"

definition Action_WithStatus :: "Action \<Rightarrow> string \<Rightarrow> time \<Rightarrow> Action" where
  "Action_WithStatus a status now = a\<lparr>Action_Status := status, Action_UpdatedAt := now\<rparr>"

definition Action_Approve :: "Action \<Rightarrow> string \<Rightarrow> time \<Rightarrow> Action" where
  "Action_Approve a approvedBy now =
     a\<lparr>Action_Status := ActionStatusApproved, Action_ApprovedBy := approvedBy,
       Action_ApprovedAt := Some now, Action_UpdatedAt := now\<rparr>"

definition Action_Reject :: "Action \<Rightarrow> string \<Rightarrow> time \<Rightarrow> Action" where
  "Action_Reject a rejectedBy now =
     a\<lparr>Action_Status := ActionStatusRejected, Action_ApprovedBy := rejectedBy,
       Action_UpdatedAt := now\<rparr>"

definition Action_Complete :: "Action \<Rightarrow> string \<Rightarrow> time \<Rightarrow> Action" where
  "Action_Complete a output now =
     a\<lparr>Action_Status := ActionStatusCompleted, Action_Output := output,
       Action_CompletedAt := Some now, Action_UpdatedAt := now\<rparr>"

text \<open>\<open>WithExecutedAt t\<close>: \<open>t\<close> is the execution time, \<open>now\<close> the clock read for \<open>UpdatedAt\<close>.\<close>

definition Action_WithExecutedAt :: "Action \<Rightarrow> time \<Rightarrow> time \<Rightarrow> Action" where
  "Action_WithExecutedAt a t now =
     a\<lparr>Action_Status := ActionStatusExecuting, Action_ExecutedAt := Some t,
       Action_UpdatedAt := now\<rparr>"

definition Action_Fail :: "Action \<Rightarrow> string \<Rightarrow> time \<Rightarrow> Action" where
  "Action_Fail a errMsg now =
     a\<lparr>Action_Status := ActionStatusFailed, Action_ErrorMessage := errMsg,
       Action_UpdatedAt := now\<rparr>"

definition Action_WithEnvironment :: "Action \<Rightarrow> string \<Rightarrow> time \<Rightarrow> Action" where
  "Action_WithEnvironment a env now = a\<lparr>Action_Environment := env, Action_UpdatedAt := now\<rparr>"

definition Action_WithNamespace :: "Action \<Rightarrow> string \<Rightarrow> time \<Rightarrow> Action" where
  "Action_WithNamespace a ns now = a\<lparr>Action_Namespace := ns, Action_UpdatedAt := now\<rparr>"

definition Action_WithReversible :: "Action \<Rightarrow> bool \<Rightarrow> time \<Rightarrow> Action" where
  "Action_WithReversible a reversible now =
     a\<lparr>Action_Reversible := reversible, Action_UpdatedAt := now\<rparr>"

definition Action_IsTerminal :: "Action \<Rightarrow> bool" where
  "Action_IsTerminal a =
     (Action_Status a \<in> set [ActionStatusCompleted, ActionStatusFailed, ActionStatusRejected,
                               ActionStatusRolledBack])"

subsection \<open>ConversationThread\<close>

record ChatMessage =
  ChatMessage_Role :: string
  ChatMessage_Content :: string
  ChatMessage_UserID :: string
  ChatMessage_Timestamp :: time

record ConversationThread =
  Thread_ID :: string
  Thread_AlertID :: string
  Thread_ThreadID :: string
  Thread_ChannelID :: string
  Thread_Messages :: "ChatMessage list"
  Thread_Active :: bool
  Thread_CreatedAt :: time
  Thread_UpdatedAt :: time

text \<open>
  Go's \<open>int\<close> is 64 bits wide and signed: \<open>len(c.Messages) - n\<close> wraps around, and the slice
  expression \<open>c.Messages[low:]\<close> panics unless \<open>0 \<le> low \<le> len(c.Messages)\<close>.
\<close>

datatype panic = SliceBoundsOutOfRange

definition wrap64 :: "int \<Rightarrow> int" where
  "wrap64 x = (x + 2 ^ 63) mod 2 ^ 64 - 2 ^ 63"

definition LastNMessages :: "ConversationThread \<Rightarrow> int \<Rightarrow> panic + ChatMessage list" where
  "LastNMessages c n =
     (let len = int (length (Thread_Messages c)) in
      if n \<ge> len then Inr (Thread_Messages c)
      else
        (let low = wrap64 (len - n) in
         if 0 \<le> low \<and> low \<le> len then Inr (drop (nat low) (Thread_Messages c))
         else Inl SliceBoundsOutOfRange))"

subsection \<open>EnvironmentPolicy\<close>

abbreviation PolicyModeAutoFix :: string where "PolicyModeAutoFix \<equiv> ''auto_fix''"
abbreviation PolicyModeWarnAuto :: string where "PolicyModeWarnAuto \<equiv> ''warn_auto''"
abbreviation PolicyModeApprovalRequired :: string where
  "PolicyModeApprovalRequired \<equiv> ''approval_required''"

record PolicyCondition =
  Condition_Field :: string
  Condition_Operator :: string
  Condition_Value :: string

record PolicyRule =
  Rule_Name :: string
  Rule_Description :: string
  Rule_Condition :: PolicyCondition
  Rule_Effect :: string
  Rule_Priority :: int

record EnvironmentPolicy =
  Policy_ID :: string
  Policy_Environment :: string
  Policy_Mode :: string
  Policy_MaxAutoRisk :: string
  Policy_Approvers :: "string list"
  Policy_Namespaces :: "string list"
  Policy_CustomRules :: "PolicyRule list"
  Policy_Enabled :: bool

section \<open>PolicyEvaluator (internal/domain/service/policy_evaluator.go)\<close>

definition riskOrder :: "string \<Rightarrow> int option" where
  "riskOrder = map_of [(''low'', 0), (''medium'', 1), (''high'', 2), (''critical'', 3)]"

record PolicyDecision =
  Decision_Allowed :: bool
  Decision_NeedsApproval :: bool
  Decision_AutoExecute :: bool
  Decision_Reason :: string
  Decision_Approvers :: "string list"
  Decision_MaxRiskLevel :: string

definition isRiskAcceptable :: "string \<Rightarrow> string \<Rightarrow> bool" where
  "isRiskAcceptable actionRisk maxRisk =
     (case (riskOrder actionRisk, riskOrder maxRisk) of
        (Some actionOrder, Some maxOrder) \<Rightarrow> actionOrder \<le> maxOrder
      | _ \<Rightarrow> False)"

text \<open>
  \<open>Evaluate\<close>. The repository lookup \<open>e.repo.GetByEnvironment(ctx, environment)\<close> is the
  argument \<open>lookup\<close> (\<open>Inl\<close> its error). The result is the pair the Go function returns: the
  decision and the error (\<open>None\<close> for \<open>nil\<close>).
\<close>

definition Evaluate ::
  "(string \<Rightarrow> err + EnvironmentPolicy) \<Rightarrow> string \<Rightarrow> Action \<Rightarrow> PolicyDecision \<times> err option" where
  "Evaluate lookup environment action =
     (case lookup environment of
        Inl e \<Rightarrow>
          (\<lparr>Decision_Allowed = True, Decision_NeedsApproval = True, Decision_AutoExecute = False,
            Decision_Reason =
              ''policy lookup failed ('' @ e @ ''); defaulting to approval-required'',
            Decision_Approvers = [], Decision_MaxRiskLevel = ''low''\<rparr>, None)
      | Inr policy \<Rightarrow>
          if \<not> Policy_Enabled policy then
            (\<lparr>Decision_Allowed = False, Decision_NeedsApproval = False,
              Decision_AutoExecute = False,
              Decision_Reason =
                ''policy for environment '' @ quoted environment @ '' is disabled'',
              Decision_Approvers = [], Decision_MaxRiskLevel = Policy_MaxAutoRisk policy\<rparr>, None)
          else
            (let actionRisk = Action_Risk action in
             if Policy_Mode policy = PolicyModeAutoFix then
               (if \<not> isRiskAcceptable actionRisk (Policy_MaxAutoRisk policy) then
                  (\<lparr>Decision_Allowed = True, Decision_NeedsApproval = True,
                    Decision_AutoExecute = False,
                    Decision_Reason =
                      ''action risk '' @ quoted actionRisk @ '' exceeds max auto-risk ''
                        @ quoted (Policy_MaxAutoRisk policy) @ '' for env '' @ quoted environment,
                    Decision_Approvers = Policy_Approvers policy,
                    Decision_MaxRiskLevel = Policy_MaxAutoRisk policy\<rparr>, None)
                else
                  (\<lparr>Decision_Allowed = True, Decision_NeedsApproval = False,
                    Decision_AutoExecute = True,
                    Decision_Reason =
                      ''auto_fix policy: risk '' @ quoted actionRisk @ '' is within limit ''
                        @ quoted (Policy_MaxAutoRisk policy),
                    Decision_Approvers = [],
                    Decision_MaxRiskLevel = Policy_MaxAutoRisk policy\<rparr>, None))
             else if Policy_Mode policy = PolicyModeWarnAuto then
               (if \<not> isRiskAcceptable actionRisk (Policy_MaxAutoRisk policy) then
                  (\<lparr>Decision_Allowed = True, Decision_NeedsApproval = True,
                    Decision_AutoExecute = False,
                    Decision_Reason =
                      ''warn_auto policy: action risk '' @ quoted actionRisk @ '' exceeds limit ''
                        @ quoted (Policy_MaxAutoRisk policy) @ ''; approval required'',
                    Decision_Approvers = Policy_Approvers policy,
                    Decision_MaxRiskLevel = Policy_MaxAutoRisk policy\<rparr>, None)
                else
                  (\<lparr>Decision_Allowed = True, Decision_NeedsApproval = False,
                    Decision_AutoExecute = True,
                    Decision_Reason =
                      ''warn_auto policy: executing with warning (risk '' @ quoted actionRisk
                        @ '')'',
                    Decision_Approvers = [],
                    Decision_MaxRiskLevel = Policy_MaxAutoRisk policy\<rparr>, None))
             else if Policy_Mode policy = PolicyModeApprovalRequired then
               (\<lparr>Decision_Allowed = True, Decision_NeedsApproval = True,
                 Decision_AutoExecute = False,
                 Decision_Reason =
                   ''approval_required policy for environment '' @ quoted environment,
                 Decision_Approvers = Policy_Approvers policy,
                 Decision_MaxRiskLevel = Policy_MaxAutoRisk policy\<rparr>, None)
             else
               (\<lparr>Decision_Allowed = True, Decision_NeedsApproval = True,
                 Decision_AutoExecute = False,
                 Decision_Reason =
                   ''unknown policy mode '' @ quoted (Policy_Mode policy)
                     @ ''; defaulting to approval-required'',
                 Decision_Approvers = Policy_Approvers policy,
                 Decision_MaxRiskLevel = Policy_MaxAutoRisk policy\<rparr>, None)))"

section \<open>Command whitelist (internal/adapter/outbound/kubernetes)\<close>

record CommandValidation =
  Validation_Allowed :: bool
  Validation_Reason :: string
  Validation_Risk :: string

text \<open>
  A \<open>map[string]bool\<close> that only ever stores \<open>true\<close> is the set of its keys; a lookup of an
  absent key yields \<open>false\<close>.
\<close>

record WhitelistConfig =
  Config_ReadOnly :: "string list"
  Config_Exec :: "string list"
  Config_Remediation :: "string list"
  Config_BlockedNamespaces :: "string list"

record Whitelist =
  readOnly :: "string set"
  exec :: "string set"
  remediation :: "string set"
  blockedNS :: "string set"

definition toSet :: "string list \<Rightarrow> string set" where
  "toSet items = set (map ToLower items)"

definition NewWhitelist :: "WhitelistConfig \<Rightarrow> Whitelist" where
  "NewWhitelist cfg =
     \<lparr>readOnly = toSet (Config_ReadOnly cfg), exec = toSet (Config_Exec cfg),
      remediation = toSet (Config_Remediation cfg),
      blockedNS = toSet (Config_BlockedNamespaces cfg)\<rparr>"

definition IsNamespaceBlocked :: "Whitelist \<Rightarrow> string \<Rightarrow> bool" where
  "IsNamespaceBlocked w ns = (ns \<in> blockedNS w)"

subsection \<open>whitelist.go\<close>

definition IsExecAllowed :: "Whitelist \<Rightarrow> string \<Rightarrow> bool" where
  "IsExecAllowed w command =
     (case Fields command of
        [] \<Rightarrow> False
      | binary # _ \<Rightarrow> ToLower binary \<in> exec w)"

definition ValidateExecCommand :: "Whitelist \<Rightarrow> string list \<Rightarrow> bool \<times> string" where
  "ValidateExecCommand w command =
     (case command of
        [] \<Rightarrow> (False, ''empty command'')
      | first # _ \<Rightarrow>
          if \<not> IsExecAllowed w first then (False, ''command not in exec whitelist: '' @ first)
          else (True, ''command allowed''))"

subsection \<open>The second copy of the whitelist in the source tree (argument inspection)\<close>

definition dangerousPatterns :: "string list" where
  "dangerousPatterns = [''$('', [CHR 0x60], ''|'', ''>>'', ''<<'', '';'', ''&&'', ''||'']"

definition sensitivePathFragments :: "string list" where
  "sensitivePathFragments =
     [''/etc/shadow'', ''/etc/passwd'', ''/etc/master.passwd'',
      ''/proc/self/environ'', ''/proc/self/cmdline'',
      ''/.ssh/'', ''/.kube/config'', ''/.env'',
      ''/var/run/secrets'']"

definition isInternalClusterURL :: "string \<Rightarrow> bool" where
  "isInternalClusterURL u =
     list_ex (\<lambda>pattern. Contains u pattern)
       [''localhost'', ''127.0.0.1'', ''::1'', ''.svc.cluster.local'', ''.svc.cluster.'',
        ''.local:'', ''.local/'']"

definition IsExecAllowed_inspecting :: "Whitelist \<Rightarrow> string \<Rightarrow> bool" where
  "IsExecAllowed_inspecting w command =
     (case Fields command of
        [] \<Rightarrow> False
      | first # args \<Rightarrow>
          (let binary = ToLower first; fullCmd = ToLower command in
           if binary \<notin> exec w then False
           else if list_ex (\<lambda>pattern. Contains fullCmd pattern) dangerousPatterns then False
           else if list_ex (\<lambda>fragment. Contains fullCmd fragment) sensitivePathFragments
             then False
           else if binary = ''curl'' \<and>
                   list_ex (\<lambda>arg. (HasPrefix (ToLower arg) ''http://'' \<or>
                                     HasPrefix (ToLower arg) ''https://'') \<and>
                                    \<not> isInternalClusterURL (ToLower arg)) args
             then False
           else True))"

definition ValidateExecCommand_inspecting :: "Whitelist \<Rightarrow> string list \<Rightarrow> bool \<times> string" where
  "ValidateExecCommand_inspecting w command =
     (case command of
        [] \<Rightarrow> (False, ''empty command'')
      | first # _ \<Rightarrow>
          if \<not> IsExecAllowed_inspecting w (Join command '' '')
          then (False, ''command not allowed: '' @ first)
          else (True, ''command allowed''))"

subsection \<open>executor.go\<close>

fun extractNamespaceFlag :: "string list \<Rightarrow> string" where
  "extractNamespaceFlag [] = []"
| "extractNamespaceFlag (token # rest) =
     (if token = ''-n'' \<or> token = ''--namespace'' then
        (case rest of [] \<Rightarrow> extractNamespaceFlag rest | v # _ \<Rightarrow> v)
      else if HasPrefix token ''--namespace='' then TrimPrefix token ''--namespace=''
      else extractNamespaceFlag rest)"

definition ValidateCommand :: "Whitelist \<Rightarrow> string list \<Rightarrow> CommandValidation" where
  "ValidateCommand w command =
     (if command = [] then
        \<lparr>Validation_Allowed = False, Validation_Reason = ''empty command'',
         Validation_Risk = ''none''\<rparr>
      else
        (case ValidateExecCommand w command of
           (allowed, reason) \<Rightarrow>
             if \<not> allowed then
               \<lparr>Validation_Allowed = False, Validation_Reason = reason,
                Validation_Risk = ''blocked''\<rparr>
             else
               (let ns = extractNamespaceFlag command in
                if ns \<noteq> [] \<and> IsNamespaceBlocked w ns then
                  \<lparr>Validation_Allowed = False,
                   Validation_Reason = ''namespace is blocked: '' @ ns,
                   Validation_Risk = ''blocked''\<rparr>
                else
                  \<lparr>Validation_Allowed = True, Validation_Reason = reason,
                   Validation_Risk = ''low''\<rparr>)))"

text \<open>The whitelist of the package's tests (\<open>defaultTestWhitelist\<close>).\<close>

definition defaultTestWhitelist :: Whitelist where
  "defaultTestWhitelist =
     NewWhitelist
       \<lparr>Config_ReadOnly = [''get'', ''list'', ''describe'', ''logs''],
        Config_Exec = [''ls'', ''cat'', ''ps'', ''df''],
        Config_Remediation = [''kubectl rollout restart'', ''kubectl scale''],
        Config_BlockedNamespaces = [''kube-system'', ''kube-public'']\<rparr>"

section \<open>Ports and the outside world\<close>

subsection \<open>Requests and results (internal/domain/port/outbound)\<close>

record ResourceQuery =
  Query_Namespace :: string
  Query_ResourceType :: string
  Query_Name :: string
  Query_LabelSelector :: string
  Query_FieldSelector :: string
  Query_Limit :: int

record ResourceResult =
  Resource_Raw :: string
  Resource_Metadata :: "(string \<times> string) list"

record ExecRequest =
  Exec_Namespace :: string
  Exec_Pod :: string
  Exec_Container :: string
  Exec_Command :: "string list"
  Exec_Timeout :: int

record ExecResult =
  Result_Stdout :: string
  Result_Stderr :: string
  Result_ExitCode :: int

record ActionSummary =
  Summary_Command :: string
  Summary_Result :: string
  Summary_Timestamp :: int

record DiagnosisRequest =
  Request_AlertSummary :: string
  Request_K8sContext :: string
  Request_PreviousActions :: "ActionSummary list"
  Request_Environment :: string
  Request_Constraints :: "string list"

record SuggestedAction =
  Suggestion_Description :: string
  Suggestion_Commands :: "string list"
  Suggestion_Risk :: string
  Suggestion_Reversible :: bool

text \<open>A \<open>float64\<close> confidence is a real number here; nothing below computes with it.\<close>

record DiagnosisResult =
  Diagnosis_RootCause :: string
  Diagnosis_Severity :: string
  Diagnosis_Confidence :: real
  Diagnosis_SuggestedActions :: "SuggestedAction list"
  Diagnosis_Explanation :: string
  Diagnosis_NeedsMoreInfo :: bool
  Diagnosis_FollowUpQueries :: "string list"

record ModelInfo =
  Info_Provider :: string
  Info_Model :: string
  Info_MaxTokens :: int
  Info_ContextSize :: int

record AlertNotification =
  AlertNote_AlertID :: string
  AlertNote_Title :: string
  AlertNote_Summary :: string
  AlertNote_Severity :: string
  AlertNote_Environment :: string
  AlertNote_Source :: string
  AlertNote_Labels :: "(string \<times> string) list"
  AlertNote_ThreadID :: string

record ActionNotification =
  ActionNote_Description :: string
  ActionNote_Command :: string
  ActionNote_Status :: string
  ActionNote_Output :: string
  ActionNote_Risk :: string

record AnalysisNotification =
  AnalysisNote_AlertID :: string
  AnalysisNote_ThreadID :: string
  AnalysisNote_RootCause :: string
  AnalysisNote_Confidence :: real
  AnalysisNote_Severity :: string
  AnalysisNote_Actions :: "ActionNotification list"
  AnalysisNote_Explanation :: string

record ApprovalNotification =
  Approval_AlertID :: string
  Approval_ThreadID :: string
  Approval_ActionID :: string
  Approval_Description :: string
  Approval_Commands :: "string list"
  Approval_Risk :: string
  Approval_Environment :: string
  Approval_RequestedBy :: string

subsection \<open>Analysis and AuditLog (internal/domain/model)\<close>

record Analysis =
  Analysis_ID :: string
  Analysis_AlertID :: string
  Analysis_Provider :: string
  Analysis_Model :: string
  Analysis_RootCause :: string
  Analysis_Severity :: string
  Analysis_Confidence :: real
  Analysis_Explanation :: string
  Analysis_K8sContext :: string
  Analysis_PromptTokens :: int
  Analysis_ResponseTokens :: int
  Analysis_LatencyMs :: int
  Analysis_CreatedAt :: time

definition NewAnalysis :: "string \<Rightarrow> time \<Rightarrow> string \<Rightarrow> string \<Rightarrow> string \<Rightarrow> Analysis" where
  "NewAnalysis newID now alertID provider model =
     \<lparr>Analysis_ID = newID, Analysis_AlertID = alertID, Analysis_Provider = provider,
      Analysis_Model = model, Analysis_RootCause = [], Analysis_Severity = [],
      Analysis_Confidence = 0, Analysis_Explanation = [], Analysis_K8sContext = [],
      Analysis_PromptTokens = 0, Analysis_ResponseTokens = 0, Analysis_LatencyMs = 0,
      Analysis_CreatedAt = now\<rparr>"

definition Analysis_WithDiagnosis ::
  "Analysis \<Rightarrow> string \<Rightarrow> string \<Rightarrow> real \<Rightarrow> string \<Rightarrow> Analysis" where
  "Analysis_WithDiagnosis a rootCause severity confidence explanation =
     a\<lparr>Analysis_RootCause := rootCause, Analysis_Severity := severity,
       Analysis_Confidence := confidence, Analysis_Explanation := explanation\<rparr>"

definition Analysis_WithTokenUsage :: "Analysis \<Rightarrow> int \<Rightarrow> int \<Rightarrow> int \<Rightarrow> Analysis" where
  "Analysis_WithTokenUsage a prompt response latencyMs =
     a\<lparr>Analysis_PromptTokens := prompt, Analysis_ResponseTokens := response,
       Analysis_LatencyMs := latencyMs\<rparr>"

text \<open>
  Modelled from the spec: \<open>Analysis.WithK8sContext\<close> is called by the analyzer and is not in
  this source tree; it is taken to store its argument in the \<open>K8sContext\<close> field, as the
  other \<open>With...\<close> operations of the record do with theirs.
\<close>

definition Analysis_WithK8sContext :: "Analysis \<Rightarrow> string \<Rightarrow> Analysis" where
  "Analysis_WithK8sContext a k8sCtx = a\<lparr>Analysis_K8sContext := k8sCtx\<rparr>"

abbreviation AuditAlertReceived :: string where "AuditAlertReceived \<equiv> ''alert.received''"
abbreviation AuditAnalysisStarted :: string where "AuditAnalysisStarted \<equiv> ''analysis.started''"
abbreviation AuditAnalysisCompleted :: string where
  "AuditAnalysisCompleted \<equiv> ''analysis.completed''"
abbreviation AuditActionCompleted :: string where "AuditActionCompleted \<equiv> ''action.completed''"
abbreviation AuditActionFailed :: string where "AuditActionFailed \<equiv> ''action.failed''"
abbreviation AuditPolicyEvaluated :: string where "AuditPolicyEvaluated \<equiv> ''policy.evaluated''"

record AuditLog =
  Audit_ID :: string
  Audit_EventType :: string
  Audit_AlertID :: string
  Audit_ActionID :: string
  Audit_Actor :: string
  Audit_Environment :: string
  Audit_Description :: string
  Audit_Metadata :: "(string \<times> string) list"
  Audit_CreatedAt :: time

definition NewAuditLog ::
  "string \<Rightarrow> time \<Rightarrow> string \<Rightarrow> string \<Rightarrow> string \<Rightarrow> string \<Rightarrow> string \<Rightarrow> AuditLog" where
  "NewAuditLog newID now eventType alertID actor environment description =
     \<lparr>Audit_ID = newID, Audit_EventType = eventType, Audit_AlertID = alertID,
      Audit_ActionID = [], Audit_Actor = actor, Audit_Environment = environment,
      Audit_Description = description, Audit_Metadata = [], Audit_CreatedAt = now\<rparr>"

definition Audit_WithActionID :: "AuditLog \<Rightarrow> string \<Rightarrow> AuditLog" where
  "Audit_WithActionID a actionID = a\<lparr>Audit_ActionID := actionID\<rparr>"

subsection \<open>The history of calls and the environment\<close>

text \<open>
  Every call that leaves the process (cluster, language model, repositories, notifier,
  logger, clock, identifier generator) is recorded as an event; the world is the list of the
  events so far, oldest first. The environment gives the answer of each call as a function
  of the history before it, so the answers may depend on everything that happened earlier.
  The clock counts milliseconds.
\<close>

datatype Event =
    Time_Now
  | Generate_ID
  | K8s_GetResource ResourceQuery
  | K8s_GetPodLogs string string string int
  | K8s_GetEvents string string
  | K8s_DescribeResource string string string
  | K8s_GetClusterContext
  | K8s_Exec ExecRequest
  | LLM_Diagnose DiagnosisRequest
  | LLM_ModelInfo
  | Alerts_Create Alert
  | Alerts_Update Alert
  | Analyses_Create Analysis
  | Actions_Create Action
  | Actions_UpdateStatus string string string
  | Audits_Create AuditLog
  | Policies_GetByEnvironment string
  | Notify_Alert AlertNotification
  | Notify_Analysis AnalysisNotification
  | Notify_Action string ActionNotification
  | Request_Approval ApprovalNotification
  | Logger_Error string

type_synonym World = "Event list"

record Env =
  Env_Now :: "World \<Rightarrow> time"
  Env_GenerateID :: "World \<Rightarrow> string"
  Env_GetResource :: "World \<Rightarrow> ResourceQuery \<Rightarrow> err + ResourceResult"
  Env_GetPodLogs :: "World \<Rightarrow> string \<Rightarrow> string \<Rightarrow> string \<Rightarrow> int \<Rightarrow> err + string"
  Env_GetEvents :: "World \<Rightarrow> string \<Rightarrow> string \<Rightarrow> err + string"
  Env_DescribeResource :: "World \<Rightarrow> string \<Rightarrow> string \<Rightarrow> string \<Rightarrow> err + string"
  Env_GetClusterContext :: "World \<Rightarrow> err + string"
  Env_ValidateCommand :: "string list \<Rightarrow> CommandValidation"
  Env_Exec :: "World \<Rightarrow> ExecRequest \<Rightarrow> err + ExecResult"
  Env_Diagnose :: "World \<Rightarrow> DiagnosisRequest \<Rightarrow> err + DiagnosisResult"
  Env_ModelInfo :: "World \<Rightarrow> ModelInfo \<times> err option"
  Env_AlertsCreate :: "World \<Rightarrow> Alert \<Rightarrow> err + Alert"
  Env_AlertsUpdate :: "World \<Rightarrow> Alert \<Rightarrow> err + Alert"
  Env_AnalysesCreate :: "World \<Rightarrow> Analysis \<Rightarrow> err + Analysis"
  Env_ActionsCreate :: "World \<Rightarrow> Action \<Rightarrow> err + Action"
  Env_ActionsUpdateStatus :: "World \<Rightarrow> string \<Rightarrow> string \<Rightarrow> string \<Rightarrow> err option"
  Env_AuditsCreate :: "World \<Rightarrow> AuditLog \<Rightarrow> err option"
  Env_PoliciesGetByEnvironment :: "World \<Rightarrow> string \<Rightarrow> err + EnvironmentPolicy"
  Env_NotifyAlert :: "World \<Rightarrow> AlertNotification \<Rightarrow> err + string"
  Env_NotifyAnalysis :: "World \<Rightarrow> AnalysisNotification \<Rightarrow> err option"
  Env_NotifyAction :: "World \<Rightarrow> string \<Rightarrow> ActionNotification \<Rightarrow> err option"
  Env_RequestApproval :: "World \<Rightarrow> ApprovalNotification \<Rightarrow> err option"

text \<open>\<open>time.Now().UTC()\<close> and \<open>generateID()\<close> (the hexadecimal encoding is not modelled).\<close>

definition timeNow :: "Env \<Rightarrow> World \<Rightarrow> time \<times> World" where
  "timeNow env w = (Env_Now env w, w @ [Time_Now])"

definition generateID :: "Env \<Rightarrow> World \<Rightarrow> string \<times> World" where
  "generateID env w = (Env_GenerateID env w, w @ [Generate_ID])"

text \<open>The \<open>%d\<close> verb of \<open>fmt\<close>.\<close>

fun showNat :: "nat \<Rightarrow> string" where
  "showNat n =
     (if n < 10 then [''0123456789'' ! n] else showNat (n div 10) @ [''0123456789'' ! (n mod 10)])"

declare showNat.simps [simp del]

definition showInt :: "int \<Rightarrow> string" where
  "showInt i = (if i < 0 then ''-'' @ showNat (nat (- i)) else showNat (nat i))"

text \<open>The \<open>%v\<close> verb on a \<open>bool\<close>.\<close>

definition showBool :: "bool \<Rightarrow> string" where
  "showBool b = (if b then ''true'' else ''false'')"

text \<open>
  The \<open>%.2f\<close> verb: the number rounded to hundredths (the rounding of the binary
  floating-point value is not modelled; no property below reads the text).
\<close>

definition showFixed2 :: "real \<Rightarrow> string" where
  "showFixed2 x =
     (let h = nat \<lfloor>\<bar>x\<bar> * 100 + 1 / 2\<rfloor> in
      (if x < 0 \<and> 0 < h then ''-'' else []) @ showNat (h div 100) @ ''.''
        @ [''0123456789'' ! (h mod 100 div 10), ''0123456789'' ! (h mod 10)])"

section \<open>ActionPlanner (internal/domain/service)\<close>

text \<open>
  The loop of \<open>validateCommands\<close>; its state is the tuple of the local variables
  \<open>(allowed, maxRisk, denyReason, maxRiskVal, deniedAll)\<close>.
\<close>

fun validateEach ::
  "Env \<Rightarrow> string list \<Rightarrow> string list \<times> string \<times> string \<times> int \<times> bool
     \<Rightarrow> string list \<times> string \<times> string \<times> int \<times> bool" where
  "validateEach env [] st = st"
| "validateEach env (cmd # cmds) (allowed, maxRisk, denyReason, maxRiskVal, deniedAll) =
     (let parts = Fields cmd in
      if length parts = 0 then
        validateEach env cmds (allowed, maxRisk, denyReason, maxRiskVal, deniedAll)
      else
        (let v = Env_ValidateCommand env parts in
         if \<not> Validation_Allowed v then
           validateEach env cmds (allowed, maxRisk, Validation_Reason v, maxRiskVal, deniedAll)
         else
           (case riskOrder (Validation_Risk v) of
              Some ord \<Rightarrow>
                if ord > maxRiskVal then
                  validateEach env cmds
                    (allowed @ [cmd], Validation_Risk v, denyReason, ord, False)
                else
                  validateEach env cmds (allowed @ [cmd], maxRisk, denyReason, maxRiskVal, False)
            | None \<Rightarrow>
                validateEach env cmds (allowed @ [cmd], maxRisk, denyReason, maxRiskVal, False))))"

definition validateCommands :: "Env \<Rightarrow> string list \<Rightarrow> string list \<times> string \<times> string" where
  "validateCommands env commands =
     (case validateEach env commands ([], [], [], - 1, True) of
        (allowed, maxRisk, denyReason, maxRiskVal, deniedAll) \<Rightarrow>
          if deniedAll \<and> length commands > 0 then ([], [], denyReason)
          else if maxRisk = [] then (allowed, ''low'', [])
          else (allowed, maxRisk, []))"

definition inferActionType :: "string list \<Rightarrow> string" where
  "inferActionType commands =
     (case commands of
        [] \<Rightarrow> ActionTypeManual
      | first # _ \<Rightarrow>
          (let parts = Fields first in
           if length parts < 2 then ActionTypeKubectl
           else if parts ! 1 = ''rollout'' then ActionTypeRestart
           else if parts ! 1 = ''scale'' then ActionTypeScale
           else if parts ! 1 = ''delete'' then
             (if length parts \<ge> 3 \<and> parts ! 2 = ''pod'' then ActionTypeDeletePod
              else ActionTypeKubectl)
           else if parts ! 1 = ''exec'' then ActionTypeExec
           else ActionTypeKubectl))"

definition toRiskLevel :: "string \<Rightarrow> string" where
  "toRiskLevel risk =
     (if risk = ''low'' then RiskLow
      else if risk = ''medium'' then RiskMedium
      else if risk = ''high'' then RiskHigh
      else if risk = ''critical'' then RiskCritical
      else RiskMedium)"

text \<open>The loop of \<open>Plan\<close> over the suggestions; \<open>actions\<close> is the slice built so far.\<close>

fun planEach ::
  "Env \<Rightarrow> string \<Rightarrow> string \<Rightarrow> SuggestedAction list \<Rightarrow> string \<Rightarrow> string \<Rightarrow> Action list \<Rightarrow> World
     \<Rightarrow> Action list \<times> World" where
  "planEach env analysisID alertID [] environment ns actions w = (actions, w)"
| "planEach env analysisID alertID (suggestion # suggestions) environment ns actions w =
     (case validateCommands env (Suggestion_Commands suggestion) of
        (validCmds, risk, deny) \<Rightarrow>
          if deny \<noteq> [] then planEach env analysisID alertID suggestions environment ns actions w
          else if length validCmds = 0 then
            planEach env analysisID alertID suggestions environment ns actions w
          else
            (let actionType = inferActionType validCmds;
                 riskLevel = toRiskLevel risk;
                 (now, w) = timeNow env w;
                 (newID, w) = generateID env w;
                 action = NewAction newID now analysisID alertID actionType
                            (Suggestion_Description suggestion) validCmds riskLevel;
                 (now, w) = timeNow env w;
                 action = Action_WithEnvironment action environment now;
                 (now, w) = timeNow env w;
                 action = Action_WithNamespace action ns now;
                 (now, w) = timeNow env w;
                 action = Action_WithReversible action (Suggestion_Reversible suggestion) now
             in planEach env analysisID alertID suggestions environment ns (actions @ [action]) w))"

definition Plan ::
  "Env \<Rightarrow> string \<Rightarrow> string \<Rightarrow> SuggestedAction list \<Rightarrow> string \<Rightarrow> string \<Rightarrow> World
     \<Rightarrow> (err + Action list) \<times> World" where
  "Plan env analysisID alertID suggestions environment ns w =
     (case planEach env analysisID alertID suggestions environment ns [] w of
        (actions, w) \<Rightarrow> (Inr actions, w))"

section \<open>Analyzer (internal/domain/service/analyzer.go)\<close>

definition maxFollowUpIterations :: nat where
  "maxFollowUpIterations = 3"

definition gatherK8sContext :: "Env \<Rightarrow> Alert \<Rightarrow> World \<Rightarrow> (err + string) \<times> World" where
  "gatherK8sContext env alert w =
     (let (parts, w) =
            (if Alert_Namespace alert \<noteq> [] \<and> Alert_Resource alert \<noteq> [] then
               (let query = \<lparr>Query_Namespace = Alert_Namespace alert,
                              Query_ResourceType = ''pod'', Query_Name = Alert_Resource alert,
                              Query_LabelSelector = [], Query_FieldSelector = [],
                              Query_Limit = 0\<rparr>;
                    parts = (case Env_GetResource env w query of
                               Inr res \<Rightarrow> [''=== Resource ==='' @ [CHR 0x0A] @ Resource_Raw res]
                             | Inl e \<Rightarrow> []);
                    w = w @ [K8s_GetResource query];
                    parts = (case Env_GetPodLogs env w (Alert_Namespace alert)
                                    (Alert_Resource alert) [] 100 of
                               Inr logs \<Rightarrow> parts @ [''=== Pod Logs ==='' @ [CHR 0x0A] @ logs]
                             | Inl e \<Rightarrow> parts);
                    w = w @ [K8s_GetPodLogs (Alert_Namespace alert) (Alert_Resource alert) [] 100];
                    parts = (case Env_GetEvents env w (Alert_Namespace alert)
                                    (Alert_Resource alert) of
                               Inr events \<Rightarrow> parts @ [''=== Events ==='' @ [CHR 0x0A] @ events]
                             | Inl e \<Rightarrow> parts);
                    w = w @ [K8s_GetEvents (Alert_Namespace alert) (Alert_Resource alert)]
                in (parts, w))
             else ([], w))
      in if length parts = 0 then
           (case Env_GetClusterContext env w of
              Inl e \<Rightarrow> (Inl (''no K8s context available: '' @ e), w @ [K8s_GetClusterContext])
            | Inr clusterCtx \<Rightarrow> (Inr clusterCtx, w @ [K8s_GetClusterContext]))
         else (Inr (Join parts [CHR 0x0A, CHR 0x0A]), w))"

text \<open>The loop of \<open>runFollowUpQueries\<close>; \<open>parts\<close> is the slice built so far.\<close>

fun runQueries :: "Env \<Rightarrow> Alert \<Rightarrow> string list \<Rightarrow> string list \<Rightarrow> World \<Rightarrow> string list \<times> World" where
  "runQueries env alert [] parts w = (parts, w)"
| "runQueries env alert (q # queries) parts w =
     (case Env_DescribeResource env w (Alert_Namespace alert) ''pod'' q of
        Inl e \<Rightarrow>
          runQueries env alert queries (parts @ [''query '' @ quoted q @ '': error: '' @ e])
            (w @ [K8s_DescribeResource (Alert_Namespace alert) ''pod'' q])
      | Inr desc \<Rightarrow>
          runQueries env alert queries (parts @ [''query '' @ quoted q @ '':'' @ [CHR 0x0A] @ desc])
            (w @ [K8s_DescribeResource (Alert_Namespace alert) ''pod'' q]))"

definition runFollowUpQueries ::
  "Env \<Rightarrow> Alert \<Rightarrow> string list \<Rightarrow> World \<Rightarrow> (err + string) \<times> World" where
  "runFollowUpQueries env alert queries w =
     (case runQueries env alert queries [] w of
        (parts, w) \<Rightarrow>
          if length parts = 0 then (Inl ''no follow-up query results'', w)
          else (Inr (Join parts [CHR 0x0A, CHR 0x0A]), w))"

text \<open>
  The follow-up loop of \<open>AnalyzeAlert\<close>, from the iteration \<open>i\<close> on, with the current values
  of \<open>req\<close> and \<open>result\<close>. It ends with the error of a failed diagnosis, or with the values of
  \<open>req\<close> and \<open>result\<close> at the exit of the loop.
\<close>

function followUpLoop ::
  "Env \<Rightarrow> Alert \<Rightarrow> nat \<Rightarrow> DiagnosisRequest \<Rightarrow> DiagnosisResult \<Rightarrow> World
     \<Rightarrow> (err + DiagnosisRequest \<times> DiagnosisResult) \<times> World" where
  "followUpLoop env alert i req result w =
     (if i < maxFollowUpIterations \<and> Diagnosis_NeedsMoreInfo result
         \<and> length (Diagnosis_FollowUpQueries result) > 0 then
        (case runFollowUpQueries env alert (Diagnosis_FollowUpQueries result) w of
           (Inl queryErr, w1) \<Rightarrow>
             (Inr (req\<lparr>Request_K8sContext :=
                          Request_K8sContext req @ [CHR 0x0A]
                            @ ''follow-up query error: '' @ queryErr\<rparr>, result), w1)
         | (Inr additionalCtx, w1) \<Rightarrow>
             (case Env_Diagnose env w1
                     (req\<lparr>Request_K8sContext :=
                            Request_K8sContext req @ [CHR 0x0A] @ additionalCtx\<rparr>) of
                Inl e \<Rightarrow>
                  (Inl (''LLM follow-up diagnosis failed: '' @ e),
                   w1 @ [LLM_Diagnose
                           (req\<lparr>Request_K8sContext :=
                                  Request_K8sContext req @ [CHR 0x0A] @ additionalCtx\<rparr>)])
              | Inr result1 \<Rightarrow>
                  followUpLoop env alert (i + 1)
                    (req\<lparr>Request_K8sContext :=
                           Request_K8sContext req @ [CHR 0x0A] @ additionalCtx\<rparr>)
                    result1
                    (w1 @ [LLM_Diagnose
                             (req\<lparr>Request_K8sContext :=
                                    Request_K8sContext req @ [CHR 0x0A] @ additionalCtx\<rparr>)])))
      else (Inr (req, result), w))"
  by pat_completeness auto

termination
  by (relation "measure (\<lambda>(env, alert, i, req, result, w). maxFollowUpIterations - i)")
    (auto simp add: maxFollowUpIterations_def)

declare followUpLoop.simps [simp del]

definition AnalyzeAlert ::
  "Env \<Rightarrow> Alert \<Rightarrow> World \<Rightarrow> (err + Analysis \<times> SuggestedAction list) \<times> World" where
  "AnalyzeAlert env alert w =
     (let (gathered, w) = gatherK8sContext env alert w;
          k8sCtx = (case gathered of
                      Inl e \<Rightarrow> ''partial k8s context (error: '' @ e @ '')''
                    | Inr c \<Rightarrow> c);
          req = \<lparr>Request_AlertSummary =
                    ''['' @ Alert_Severity alert @ ''] '' @ Alert_Title alert @ '': ''
                      @ Alert_Description alert,
                  Request_K8sContext = k8sCtx, Request_PreviousActions = [],
                  Request_Environment = Alert_Environment alert, Request_Constraints = []\<rparr>;
          (start, w) = timeNow env w
      in case Env_Diagnose env w req of
           Inl e \<Rightarrow> (Inl (''LLM diagnosis failed: '' @ e), w @ [LLM_Diagnose req])
         | Inr result \<Rightarrow>
             (case followUpLoop env alert 0 req result (w @ [LLM_Diagnose req]) of
                (Inl e, w) \<Rightarrow> (Inl e, w)
              | (Inr (req, result), w) \<Rightarrow>
                  (let (finish, w) = timeNow env w;
                       latencyMs = int finish - int start;
                       (modelInfo, w) = (fst (Env_ModelInfo env w), w @ [LLM_ModelInfo]);
                       (newID, w) = generateID env w;
                       (now, w) = timeNow env w;
                       analysis = NewAnalysis newID now (Alert_ID alert)
                                    (Info_Provider modelInfo) (Info_Model modelInfo);
                       analysis = Analysis_WithDiagnosis analysis (Diagnosis_RootCause result)
                                    (Diagnosis_Severity result) (Diagnosis_Confidence result)
                                    (Diagnosis_Explanation result);
                       analysis = Analysis_WithTokenUsage analysis 0 0 latencyMs;
                       analysis = Analysis_WithK8sContext analysis k8sCtx
                   in (Inr (analysis, Diagnosis_SuggestedActions result), w))))"

text \<open>The diagnosis requests recorded in a history, in order.\<close>

fun diagnoseCalls :: "World \<Rightarrow> DiagnosisRequest list" where
  "diagnoseCalls [] = []"
| "diagnoseCalls (LLM_Diagnose req # w) = req # diagnoseCalls w"
| "diagnoseCalls (e # w) = diagnoseCalls w"

section \<open>Orchestrator: action execution\<close>

text \<open>
  \<open>logAudit\<close>: the audit entry is handed to the audit repository; a failure is logged and
  otherwise ignored. \<open>newAuditLog\<close> is \<open>model.NewAuditLog\<close> with its draws from the outside.
\<close>

definition newAuditLog ::
  "Env \<Rightarrow> string \<Rightarrow> string \<Rightarrow> string \<Rightarrow> string \<Rightarrow> string \<Rightarrow> World \<Rightarrow> AuditLog \<times> World" where
  "newAuditLog env eventType alertID actor environment description w =
     (let (newID, w) = generateID env w;
          (now, w) = timeNow env w
      in (NewAuditLog newID now eventType alertID actor environment description, w))"

definition logAudit :: "Env \<Rightarrow> AuditLog \<Rightarrow> World \<Rightarrow> World" where
  "logAudit env entry w =
     (case Env_AuditsCreate env w entry of
        Some e \<Rightarrow> w @ [Audits_Create entry, Logger_Error ''failed to write audit log'']
      | None \<Rightarrow> w @ [Audits_Create entry])"

text \<open>The request that \<open>executeAction\<close> builds for one command of an action.\<close>

definition execRequest :: "Action \<Rightarrow> string \<Rightarrow> ExecRequest" where
  "execRequest action cmd =
     \<lparr>Exec_Namespace = Action_Namespace action, Exec_Pod = [], Exec_Container = [],
      Exec_Command = Fields cmd, Exec_Timeout = 60\<rparr>"

text \<open>
  The loop of \<open>executeAction\<close> over the commands still to run; the result is the pair of the
  local variables \<open>(outputs, execErr)\<close> at the end of the loop.
\<close>

fun execCommands ::
  "Env \<Rightarrow> Action \<Rightarrow> string list \<Rightarrow> string list \<Rightarrow> World
     \<Rightarrow> (string list \<times> err option) \<times> World" where
  "execCommands env action [] outputs w = ((outputs, None), w)"
| "execCommands env action (cmd # cmds) outputs w =
     (case Env_Exec env w (execRequest action cmd) of
        Inl e \<Rightarrow>
          ((outputs @ [''ERROR: '' @ e], Some (''exec command '' @ quoted cmd @ '': '' @ e)),
           w @ [K8s_Exec (execRequest action cmd)])
      | Inr result \<Rightarrow>
          if Result_ExitCode result \<noteq> 0 then
            ((outputs @ [''EXIT '' @ showInt (Result_ExitCode result) @ '': ''
                           @ Result_Stderr result],
              Some (''command '' @ quoted cmd @ '' exited with code ''
                      @ showInt (Result_ExitCode result) @ '': '' @ Result_Stderr result)),
             w @ [K8s_Exec (execRequest action cmd)])
          else
            execCommands env action cmds (outputs @ [Result_Stdout result])
              (w @ [K8s_Exec (execRequest action cmd)]))"

definition executeAction :: "Env \<Rightarrow> Action \<Rightarrow> World \<Rightarrow> (Action \<times> err option) \<times> World" where
  "executeAction env action w =
     (let (t, w) = timeNow env w;
          (now, w) = timeNow env w;
          action = Action_WithExecutedAt action t now;
          ((outputs, execErr), w) = execCommands env action (Action_Commands action) [] w;
          output = Join outputs [CHR 0x0A];
          (now, w) = timeNow env w;
          (auditType, action) =
            (case execErr of
               Some e \<Rightarrow> (AuditActionFailed, Action_Fail action e now)
             | None \<Rightarrow> (AuditActionCompleted, Action_Complete action output now));
          (entry, w) =
            newAuditLog env auditType (Action_AlertID action) ''system''
              (Action_Environment action)
              (''action '' @ quoted (Action_Description action) @ '' executed'') w;
          w = logAudit env (Audit_WithActionID entry (Action_ID action)) w;
          threadID = (case map_of (Action_Metadata action) ''thread_id'' of
                        Some v \<Rightarrow> v | None \<Rightarrow> []);
          notification = \<lparr>ActionNote_Description = Action_Description action,
                           ActionNote_Command = Join (Action_Commands action) '' && '',
                           ActionNote_Status = Action_Status action,
                           ActionNote_Output = output,
                           ActionNote_Risk = Action_Risk action\<rparr>;
          w = (case Env_NotifyAction env w threadID notification of
                 Some e \<Rightarrow> w @ [Notify_Action threadID notification,
                                  Logger_Error ''failed to notify action'']
               | None \<Rightarrow> w @ [Notify_Action threadID notification])
      in ((action, execErr), w))"

subsection \<open>Reference notions for the execution of an action\<close>

text \<open>
  \<open>commandsOK env action w cmds\<close>: run in order from the world \<open>w\<close>, each of the commands
  returns without an error and with exit code 0; \<open>stdouts\<close> are then their standard outputs.
  \<open>execCalls\<close> are the execution requests recorded in a history, in order.
\<close>

fun commandsOK :: "Env \<Rightarrow> Action \<Rightarrow> World \<Rightarrow> string list \<Rightarrow> bool" where
  "commandsOK env action w [] = True"
| "commandsOK env action w (cmd # cmds) =
     (case Env_Exec env w (execRequest action cmd) of
        Inl e \<Rightarrow> False
      | Inr result \<Rightarrow>
          Result_ExitCode result = 0
          \<and> commandsOK env action (w @ [K8s_Exec (execRequest action cmd)]) cmds)"

fun stdouts :: "Env \<Rightarrow> Action \<Rightarrow> World \<Rightarrow> string list \<Rightarrow> string list" where
  "stdouts env action w [] = []"
| "stdouts env action w (cmd # cmds) =
     (case Env_Exec env w (execRequest action cmd) of
        Inl e \<Rightarrow> []
      | Inr result \<Rightarrow>
          Result_Stdout result # stdouts env action (w @ [K8s_Exec (execRequest action cmd)]) cmds)"

fun execCalls :: "World \<Rightarrow> ExecRequest list" where
  "execCalls [] = []"
| "execCalls (K8s_Exec req # w) = req # execCalls w"
| "execCalls (e # w) = execCalls w"

section \<open>Orchestrator: the alert pipeline\<close>

text \<open>
  \<open>PolicyEvaluator.Evaluate\<close> together with its call of the policy repository.
\<close>

definition evaluatePolicy ::
  "Env \<Rightarrow> string \<Rightarrow> Action \<Rightarrow> World \<Rightarrow> (PolicyDecision \<times> err option) \<times> World" where
  "evaluatePolicy env environment action w =
     (Evaluate (Env_PoliciesGetByEnvironment env w) environment action,
      w @ [Policies_GetByEnvironment environment])"

text \<open>
  The loop of \<open>HandleAlert\<close> over the planned actions (step 6); \<open>allResolved\<close> is the flag
  of that name. A message handed to the logger is recorded without its attributes.
\<close>

fun handleActions ::
  "Env \<Rightarrow> Alert \<Rightarrow> string \<Rightarrow> Action list \<Rightarrow> bool \<Rightarrow> World \<Rightarrow> bool \<times> World" where
  "handleActions env alert threadID [] allResolved w = (allResolved, w)"
| "handleActions env alert threadID (action # actions) allResolved w =
     (case evaluatePolicy env (Alert_Environment alert) action w of
        ((decision, Some evalErr), w) \<Rightarrow> handleActions env alert threadID actions False w
      | ((decision, None), w) \<Rightarrow>
          (let (entry, w) =
                 newAuditLog env AuditPolicyEvaluated (Alert_ID alert) ''system''
                   (Alert_Environment alert)
                   (''policy decision for action '' @ Action_Description action
                      @ '': allowed='' @ showBool (Decision_Allowed decision)
                      @ '' needsApproval='' @ showBool (Decision_NeedsApproval decision)) w;
               w = logAudit env (Audit_WithActionID entry (Action_ID action)) w
           in
             if \<not> Decision_Allowed decision then
               (let (now, w) = timeNow env w;
                    action = Action_WithStatus action ActionStatusRejected now;
                    w = (case Env_ActionsCreate env w action of
                           Inl createErr \<Rightarrow>
                             w @ [Actions_Create action, Logger_Error ''failed to create action'']
                         | Inr created \<Rightarrow> w @ [Actions_Create action])
                in handleActions env alert threadID actions allResolved w)
             else if Decision_NeedsApproval decision then
               (let (now, w) = timeNow env w;
                    action = Action_WithStatus action ActionStatusPending now
                in case Env_ActionsCreate env w action of
                     Inl createErr \<Rightarrow>
                       handleActions env alert threadID actions False (w @ [Actions_Create action])
                   | Inr created \<Rightarrow>
                       (let w = w @ [Actions_Create action];
                            request =
                              \<lparr>Approval_AlertID = Alert_ID alert,
                               Approval_ThreadID = threadID,
                               Approval_ActionID = Action_ID created,
                               Approval_Description = Action_Description created,
                               Approval_Commands = Action_Commands created,
                               Approval_Risk = Action_Risk created,
                               Approval_Environment = Alert_Environment alert,
                               Approval_RequestedBy = ''system''\<rparr>;
                            w = (case Env_RequestApproval env w request of
                                   Some notifyErr \<Rightarrow>
                                     w @ [Request_Approval request,
                                          Logger_Error ''failed to request approval'']
                                 | None \<Rightarrow> w @ [Request_Approval request])
                        in handleActions env alert threadID actions False w))
             else
               (case Env_ActionsCreate env w action of
                  Inl createErr \<Rightarrow>
                    handleActions env alert threadID actions False
                      (w @ [Actions_Create action, Logger_Error ''failed to create action''])
                | Inr created \<Rightarrow>
                    (case executeAction env created (w @ [Actions_Create action]) of
                       ((executedAction, execErr), w) \<Rightarrow>
                         (let allResolved = (if execErr \<noteq> None then False else allResolved);
                              w = (case Env_ActionsUpdateStatus env w (Action_ID executedAction)
                                          (Action_Status executedAction)
                                          (Action_Output executedAction) of
                                     Some updateErr \<Rightarrow>
                                       w @ [Actions_UpdateStatus (Action_ID executedAction)
                                              (Action_Status executedAction)
                                              (Action_Output executedAction),
                                            Logger_Error ''failed to update action status'']
                                   | None \<Rightarrow>
                                       w @ [Actions_UpdateStatus (Action_ID executedAction)
                                              (Action_Status executedAction)
                                              (Action_Output executedAction)])
                          in handleActions env alert threadID actions allResolved w)))))"

text \<open>
  \<open>HandleAlert\<close> from step 5 on (planning, notification of the analysis, the loop over the
  actions, the final status), for the alert, the thread and the stored analysis of the steps
  before.
\<close>

definition actOnAnalysis ::
  "Env \<Rightarrow> Alert \<Rightarrow> string \<Rightarrow> Analysis \<Rightarrow> SuggestedAction list \<Rightarrow> World
     \<Rightarrow> err option \<times> World" where
  "actOnAnalysis env alert threadID analysis suggestions w =
     (case Plan env (Analysis_ID analysis) (Alert_ID alert) suggestions
             (Alert_Environment alert) (Alert_Namespace alert) w of
        (Inl e, w) \<Rightarrow> (Some (''plan actions: '' @ e), w)
      | (Inr actions, w) \<Rightarrow>
          (let actionNotifs =
                 map (\<lambda>a. \<lparr>ActionNote_Description = Action_Description a,
                            ActionNote_Command = Join (Action_Commands a) '' && '',
                            ActionNote_Status = Action_Status a,
                            ActionNote_Output = [],
                            ActionNote_Risk = Action_Risk a\<rparr>) actions;
               notification =
                 \<lparr>AnalysisNote_AlertID = Alert_ID alert,
                  AnalysisNote_ThreadID = threadID,
                  AnalysisNote_RootCause = Analysis_RootCause analysis,
                  AnalysisNote_Confidence = Analysis_Confidence analysis,
                  AnalysisNote_Severity = Analysis_Severity analysis,
                  AnalysisNote_Actions = actionNotifs,
                  AnalysisNote_Explanation = Analysis_Explanation analysis\<rparr>;
               w = (case Env_NotifyAnalysis env w notification of
                      Some notifyErr \<Rightarrow>
                        w @ [Notify_Analysis notification,
                             Logger_Error ''failed to notify analysis'']
                    | None \<Rightarrow> w @ [Notify_Analysis notification]);
               (now, w) = timeNow env w;
               alert = Alert_WithStatus alert AlertStatusActing now;
               w = (case Env_AlertsUpdate env w alert of
                      Inl updateErr \<Rightarrow>
                        w @ [Alerts_Update alert, Logger_Error ''failed to update alert status'']
                    | Inr updated \<Rightarrow> w @ [Alerts_Update alert]);
               (allResolved, w) = handleActions env alert threadID actions True w;
               (alert, w) =
                 (if allResolved then
                    (let (now, w) = timeNow env w
                     in (Alert_WithStatus alert AlertStatusResolved now, w))
                  else (alert, w));
               w = (case Env_AlertsUpdate env w alert of
                      Inl updateErr \<Rightarrow>
                        w @ [Alerts_Update alert, Logger_Error ''failed to update alert status'']
                    | Inr updated \<Rightarrow> w @ [Alerts_Update alert])
           in (None, w)))"

definition HandleAlert :: "Env \<Rightarrow> Alert \<Rightarrow> World \<Rightarrow> err option \<times> World" where
  "HandleAlert env alert w =
     (case Env_AlertsCreate env w alert of
        Inl e \<Rightarrow> (Some (''save alert: '' @ e), w @ [Alerts_Create alert])
      | Inr saved \<Rightarrow>
          (let w = w @ [Alerts_Create alert];
               alert = saved;
               notification =
                 \<lparr>AlertNote_AlertID = Alert_ID alert, AlertNote_Title = Alert_Title alert,
                  AlertNote_Summary = Alert_Description alert,
                  AlertNote_Severity = Alert_Severity alert,
                  AlertNote_Environment = Alert_Environment alert,
                  AlertNote_Source = Alert_Source alert,
                  AlertNote_Labels = Alert_Labels alert, AlertNote_ThreadID = []\<rparr>
           in case Env_NotifyAlert env w notification of
                Inl e \<Rightarrow> (Some (''notify alert: '' @ e), w @ [Notify_Alert notification])
              | Inr threadID \<Rightarrow>
                  (let w = w @ [Notify_Alert notification];
                       (now, w) = timeNow env w;
                       alert = Alert_WithThreadID alert threadID now
                   in case Env_AlertsUpdate env w alert of
                        Inl e \<Rightarrow>
                          (Some (''update alert thread ID: '' @ e), w @ [Alerts_Update alert])
                      | Inr updated \<Rightarrow>
                          (let w = w @ [Alerts_Update alert];
                               (entry, w) =
                                 newAuditLog env AuditAlertReceived (Alert_ID alert) ''system''
                                   (Alert_Environment alert)
                                   (''alert received from '' @ Alert_Source alert) w;
                               w = logAudit env entry w;
                               (now, w) = timeNow env w;
                               alert = Alert_WithStatus alert AlertStatusAnalyzing now
                           in case Env_AlertsUpdate env w alert of
                                Inl e \<Rightarrow>
                                  (Some (''update alert status: '' @ e),
                                   w @ [Alerts_Update alert])
                              | Inr updated \<Rightarrow>
                                  (let w = w @ [Alerts_Update alert];
                                       (entry, w) =
                                         newAuditLog env AuditAnalysisStarted (Alert_ID alert)
                                           ''system'' (Alert_Environment alert)
                                           ''analysis started'' w;
                                       w = logAudit env entry w
                                   in case AnalyzeAlert env alert w of
                                        (Inl e, w) \<Rightarrow>
                                          (let (now, w) = timeNow env w;
                                               alert = Alert_WithStatus alert AlertStatusFailed now
                                           in (Some (''analyze alert: '' @ e),
                                               w @ [Alerts_Update alert]))
                                      | (Inr (analysis, suggestions), w) \<Rightarrow>
                                          (case Env_AnalysesCreate env w analysis of
                                             Inl e \<Rightarrow>
                                               (Some (''save analysis: '' @ e),
                                                w @ [Analyses_Create analysis])
                                           | Inr stored \<Rightarrow>
                                               (let w = w @ [Analyses_Create analysis];
                                                    (entry, w) =
                                                      newAuditLog env AuditAnalysisCompleted
                                                        (Alert_ID alert) ''system''
                                                        (Alert_Environment alert)
                                                        (''root cause: ''
                                                           @ Analysis_RootCause stored
                                                           @ '' (confidence ''
                                                           @ showFixed2 (Analysis_Confidence stored)
                                                           @ '')'') w;
                                                    w = logAudit env entry w
                                                in actOnAnalysis env alert threadID stored
                                                     suggestions w)))))))"

text \<open>
  The alerts handed to the alert repository for an update and the actions handed to the
  action repository for creation, as a history records them, in order.
\<close>

fun alertUpdates :: "World \<Rightarrow> Alert list" where
  "alertUpdates [] = []"
| "alertUpdates (Alerts_Update a # w) = a # alertUpdates w"
| "alertUpdates (e # w) = alertUpdates w"

fun actionsCreated :: "World \<Rightarrow> Action list" where
  "actionsCreated [] = []"
| "actionsCreated (Actions_Create a # w) = a # actionsCreated w"
| "actionsCreated (e # w) = actionsCreated w"

section \<open>Reference notions and sample values\<close>

text \<open>
  The order of the risk levels as the specification words it, low < medium < high < critical:
  \<open>m\<close> is at least \<open>r\<close> when \<open>m\<close> is \<open>r\<close> or stands after \<open>r\<close> in the list of levels.
\<close>

definition riskLevels :: "string list" where
  "riskLevels = [RiskLow, RiskMedium, RiskHigh, RiskCritical]"

definition riskAtMost :: "string \<Rightarrow> string \<Rightarrow> bool" where
  "riskAtMost r m = (m \<in> set (dropWhile (\<lambda>x. x \<noteq> r) riskLevels))"

text \<open>Go zero values (\<open>model.Alert{}\<close>, \<open>model.Action{}\<close>, ...), the base of the sample inputs.\<close>

definition zeroAlert :: Alert where
  "zeroAlert =
     \<lparr>Alert_ID = [], Alert_ExternalID = [], Alert_Fingerprint = [], Alert_Source = [],
      Alert_Status = [], Alert_Severity = [], Alert_Title = [], Alert_Description = [],
      Alert_Environment = [], Alert_Namespace = [], Alert_Resource = [], Alert_Labels = [],
      Alert_Annotations = [], Alert_RawPayload = [], Alert_ThreadID = [], Alert_CreatedAt = 0,
      Alert_UpdatedAt = 0, Alert_ResolvedAt = None\<rparr>"

definition zeroAction :: Action where
  "zeroAction =
     \<lparr>Action_ID = [], Action_AnalysisID = [], Action_AlertID = [], Action_Type = [],
      Action_Status = [], Action_Description = [], Action_Commands = [], Action_Risk = [],
      Action_Reversible = False, Action_Output = [], Action_ErrorMessage = [],
      Action_ApprovedBy = [], Action_ApprovedAt = None, Action_ExecutedAt = None,
      Action_CompletedAt = None, Action_Environment = [], Action_Namespace = [],
      Action_TargetResource = [], Action_Metadata = [], Action_CreatedAt = 0,
      Action_UpdatedAt = 0\<rparr>"

definition zeroPolicy :: EnvironmentPolicy where
  "zeroPolicy =
     \<lparr>Policy_ID = [], Policy_Environment = [], Policy_Mode = [], Policy_MaxAutoRisk = [],
      Policy_Approvers = [], Policy_Namespaces = [], Policy_CustomRules = [],
      Policy_Enabled = False\<rparr>"

definition sampleMessage :: "string \<Rightarrow> ChatMessage" where
  "sampleMessage text =
     \<lparr>ChatMessage_Role = ''user'', ChatMessage_Content = text, ChatMessage_UserID = ''u1'',
      ChatMessage_Timestamp = 0\<rparr>"

definition sampleThread :: ConversationThread where
  "sampleThread =
     \<lparr>Thread_ID = ''t'', Thread_AlertID = ''a'', Thread_ThreadID = ''th'', Thread_ChannelID = ''c'',
      Thread_Messages = [sampleMessage ''one'', sampleMessage ''two'', sampleMessage ''three''],
      Thread_Active = True, Thread_CreatedAt = 0, Thread_UpdatedAt = 0\<rparr>"

definition samplePolicy :: "string \<Rightarrow> string \<Rightarrow> EnvironmentPolicy" where
  "samplePolicy mode maxRisk =
     zeroPolicy\<lparr>Policy_Mode := mode, Policy_MaxAutoRisk := maxRisk, Policy_Enabled := True\<rparr>"

subsection \<open>Reference notions for the planner\<close>

text \<open>
  The surviving commands of a suggestion are those with at least one token that command
  validation allows, in their order; the validated risk of a command is the risk grade that
  validation reports for it; the highest risk of a list of grades is the highest of the four
  levels that occurs in it, and low when none occurs.
\<close>

definition surviving :: "Env \<Rightarrow> string list \<Rightarrow> string list" where
  "surviving env commands =
     filter (\<lambda>cmd. Fields cmd \<noteq> [] \<and> Validation_Allowed (Env_ValidateCommand env (Fields cmd)))
       commands"

definition validatedRisks :: "Env \<Rightarrow> string list \<Rightarrow> string list" where
  "validatedRisks env commands =
     map (\<lambda>cmd. Validation_Risk (Env_ValidateCommand env (Fields cmd))) commands"

definition highestRisk :: "string list \<Rightarrow> string" where
  "highestRisk risks =
     (case find (\<lambda>r. r \<in> set risks) (rev riskLevels) of Some r \<Rightarrow> r | None \<Rightarrow> RiskLow)"

text \<open>
  Two notions used in the proofs: the risk that \<open>validateCommands\<close> returns for the value
  of \<open>maxRisk\<close> left by its loop, and the invariant that links \<open>maxRisk\<close> and \<open>maxRiskVal\<close>.
\<close>

definition orLow :: "string \<Rightarrow> string" where
  "orLow risk = (if risk = [] then RiskLow else risk)"

definition graded :: "string \<Rightarrow> int \<Rightarrow> bool" where
  "graded maxRisk maxRiskVal = (maxRiskVal = - 1 \<and> maxRisk = [] \<or> riskOrder maxRisk = Some maxRiskVal)"

text \<open>
  A sample environment: the clock shows the length of the history, identifiers grow with it,
  the cluster runs every command successfully except \<open>false\<close> (exit code 1) and \<open>hang\<close>
  (an error), resource descriptions are not found, and command validation is that of the
  package's tests.
\<close>

definition sampleExec :: "World \<Rightarrow> ExecRequest \<Rightarrow> err + ExecResult" where
  "sampleExec w req =
     (if Exec_Command req = [''false''] then
        Inr \<lparr>Result_Stdout = [], Result_Stderr = ''boom'', Result_ExitCode = 1\<rparr>
      else if Exec_Command req = [''hang''] then Inl ''deadline exceeded''
      else Inr \<lparr>Result_Stdout = Join (Exec_Command req) ''+'', Result_Stderr = [],
                Result_ExitCode = 0\<rparr>)"

definition sampleEnv :: Env where
  "sampleEnv =
     \<lparr>Env_Now = (\<lambda>w. length w),
      Env_GenerateID = (\<lambda>w. map (\<lambda>e. CHR ''i'') w),
      Env_GetResource = (\<lambda>w q. Inr \<lparr>Resource_Raw = ''pod'', Resource_Metadata = []\<rparr>),
      Env_GetPodLogs = (\<lambda>w ns pod container n. Inr ''logs''),
      Env_GetEvents = (\<lambda>w ns object. Inr ''events''),
      Env_DescribeResource = (\<lambda>w ns kind name. Inl ''not found''),
      Env_GetClusterContext = (\<lambda>w. Inr ''cluster''),
      Env_ValidateCommand = ValidateCommand defaultTestWhitelist,
      Env_Exec = sampleExec,
      Env_Diagnose = (\<lambda>w req. Inl ''no model''),
      Env_ModelInfo = (\<lambda>w. (\<lparr>Info_Provider = ''p'', Info_Model = ''m'', Info_MaxTokens = 0,
                                 Info_ContextSize = 0\<rparr>, None)),
      Env_AlertsCreate = (\<lambda>w a. Inr a),
      Env_AlertsUpdate = (\<lambda>w a. Inr a),
      Env_AnalysesCreate = (\<lambda>w a. Inr a),
      Env_ActionsCreate = (\<lambda>w a. Inr a),
      Env_ActionsUpdateStatus = (\<lambda>w i s out. None),
      Env_AuditsCreate = (\<lambda>w l. None),
      Env_PoliciesGetByEnvironment = (\<lambda>w e. Inl ''no policy''),
      Env_NotifyAlert = (\<lambda>w n. Inr ''thread-1''),
      Env_NotifyAnalysis = (\<lambda>w n. None),
      Env_NotifyAction = (\<lambda>w t n. None),
      Env_RequestApproval = (\<lambda>w n. None)\<rparr>"

definition sampleAction :: "string list \<Rightarrow> Action" where
  "sampleAction commands = zeroAction\<lparr>Action_Commands := commands\<rparr>"

text \<open>
  An environment whose language model always asks for more information about the pod
  \<open>web-1\<close> (whose description is not found), and an alert that names a namespace and a
  resource. \<open>describeCalls\<close> are the names of the resources whose description a history
  asks for, in order.
\<close>

definition stubbornResult :: DiagnosisResult where
  "stubbornResult =
     \<lparr>Diagnosis_RootCause = ''unknown'', Diagnosis_Severity = ''warning'',
      Diagnosis_Confidence = 0, Diagnosis_SuggestedActions = [],
      Diagnosis_Explanation = [], Diagnosis_NeedsMoreInfo = True,
      Diagnosis_FollowUpQueries = [''web-1'']\<rparr>"

definition stubbornEnv :: Env where
  "stubbornEnv = sampleEnv\<lparr>Env_Diagnose := (\<lambda>w req. Inr stubbornResult)\<rparr>"

fun describeCalls :: "World \<Rightarrow> string list" where
  "describeCalls [] = []"
| "describeCalls (K8s_DescribeResource ns kind name # w) = name # describeCalls w"
| "describeCalls (e # w) = describeCalls w"

definition sampleAlert :: Alert where
  "sampleAlert = zeroAlert\<lparr>Alert_Namespace := ''shop'', Alert_Resource := ''web-1''\<rparr>"

text \<open>
  An environment for the whole pipeline: the language model suggests one action with the
  command \<open>ls /tmp\<close> and asks no follow-up question, the policy repository returns the
  given policy, everything else is as in the sample environment. The alert is a received
  alert for the environment \<open>prod\<close>.
\<close>

definition helpfulResult :: DiagnosisResult where
  "helpfulResult =
     \<lparr>Diagnosis_RootCause = ''disk full'', Diagnosis_Severity = ''warning'',
      Diagnosis_Confidence = 0, 
      Diagnosis_SuggestedActions =
        [\<lparr>Suggestion_Description = ''list files'', Suggestion_Commands = [''ls /tmp''],
          Suggestion_Risk = ''low'', Suggestion_Reversible = True\<rparr>],
      Diagnosis_Explanation = [], Diagnosis_NeedsMoreInfo = False,
      Diagnosis_FollowUpQueries = []\<rparr>"

definition pipelineEnv :: "EnvironmentPolicy \<Rightarrow> Env" where
  "pipelineEnv policy =
     sampleEnv\<lparr>Env_Diagnose := (\<lambda>w req. Inr helpfulResult),
               Env_PoliciesGetByEnvironment := (\<lambda>w environment. Inr policy)\<rparr>"

definition receivedAlert :: Alert where
  "receivedAlert =
     sampleAlert\<lparr>Alert_ID := ''alert-1'', Alert_Status := AlertStatusReceived,
                 Alert_Environment := ''prod''\<rparr>"

text \<open>A command whose two tokens are separated by a no-break space (U+00A0).\<close>

definition spacedCommand :: string where
  "spacedCommand = ''ls'' @ [CHR 0xC2, CHR 0xA0] @ ''/tmp''"

section \<open>Verified properties\<close>

subsection \<open>Fields of a command\<close>

text \<open>
  Fields are split at ASCII white space and at the encoded white-space runes (here U+00A0
  and U+3000); a byte \<open>0xA0\<close> that is not part of such an encoding is no white space.
\<close>

lemma Fields_ascii: "Fields ''kubectl  get pods '' = [''kubectl'', ''get'', ''pods'']"
  by (simp add: Fields_def spaceWidth_def whiteSpace_def HasPrefix_def)

lemma Fields_unicode_space:
  "Fields (''ls'' @ [CHR 0xC2, CHR 0xA0] @ ''/tmp'' @ [CHR 0xE3, CHR 0x80, CHR 0x80])
     = [''ls'', ''/tmp'']"
  by (simp add: Fields_def spaceWidth_def whiteSpace_def HasPrefix_def)

lemma Fields_lone_byte: "Fields (''ls'' @ [CHR 0xA0] @ ''x'') = [''ls'' @ [CHR 0xA0] @ ''x'']"
  by (simp add: Fields_def spaceWidth_def whiteSpace_def HasPrefix_def)

lemma Fields_samples:
  "Fields ''cat'' = [''cat'']"
  "Fields ''ls'' = [''ls'']"
  "Fields ''ps'' = [''ps'']"
  "Fields ''false'' = [''false'']"
  "Fields ''hang'' = [''hang'']"
  "Fields ''ls /tmp'' = [''ls'', ''/tmp'']"
  by (simp_all add: Fields_def spaceWidth_def whiteSpace_def HasPrefix_def)

subsection \<open>Command validation\<close>

lemma defaultTestWhitelist_exec:
  "exec defaultTestWhitelist = {''ls'', ''cat'', ''ps'', ''df''}"
  by (simp add: defaultTestWhitelist_def NewWhitelist_def toSet_def ToLower_def toLowerByte_def)

lemma defaultTestWhitelist_blockedNS:
  "blockedNS defaultTestWhitelist = {''kube-system'', ''kube-public''}"
  by (simp add: defaultTestWhitelist_def NewWhitelist_def toSet_def ToLower_def toLowerByte_def)


text \<open>
  The same holds for an injection pattern; the second copy of the whitelist in the source
  tree, which joins the tokens and scans them, denies the command.
\<close>

lemma ValidateCommand_allows_injection:
  "Validation_Allowed (ValidateCommand defaultTestWhitelist [''ls'', ''$(whoami)''])"
  by (simp add: ValidateCommand_def ValidateExecCommand_def IsExecAllowed_def Fields_samples
        ToLower_def toLowerByte_def defaultTestWhitelist_exec
        defaultTestWhitelist_blockedNS IsNamespaceBlocked_def HasPrefix_def TrimPrefix_def)

lemma inspecting_denies:
  "ValidateExecCommand_inspecting defaultTestWhitelist [''cat'', ''/etc/shadow'']
     = (False, ''command not allowed: cat'')"
  by (simp add: ValidateExecCommand_inspecting_def IsExecAllowed_inspecting_def Fields_def
        spaceWidth_def whiteSpace_def ToLower_def toLowerByte_def defaultTestWhitelist_exec
        dangerousPatterns_def sensitivePathFragments_def HasPrefix_def)

subsection \<open>Status transitions\<close>

text \<open>
  C4 (as stated). A status never leaves the terminal set. This fails: a resolved alert
  given \<open>WithStatus analyzing\<close> is no longer terminal, and a completed action that is
  approved or marked executing is no longer terminal.
\<close>

theorem terminal_status_left:
  "Alert_IsTerminal (Alert_Resolve zeroAlert 1)
   \<and> \<not> Alert_IsTerminal (Alert_WithStatus (Alert_Resolve zeroAlert 1) AlertStatusAnalyzing 2)
   \<and> Action_IsTerminal (Action_Complete zeroAction ''done'' 1)
   \<and> \<not> Action_IsTerminal (Action_Approve (Action_Complete zeroAction ''done'' 1) ''alice'' 2)
   \<and> \<not> Action_IsTerminal (Action_WithExecutedAt (Action_Complete zeroAction ''done'' 1) 2 2)"
  by (simp add: Alert_IsTerminal_def Alert_Resolve_def Alert_WithStatus_def
        Action_IsTerminal_def Action_Complete_def Action_Approve_def Action_WithExecutedAt_def)

text \<open>
  C4 (amended). Every status transition overwrites the status, whatever it was before:
  \<open>WithStatus s\<close> yields \<open>s\<close> (terminal exactly when \<open>s\<close> is), \<open>Resolve\<close>, \<open>Reject\<close>,
  \<open>Complete\<close> and \<open>Fail\<close> yield a terminal status, \<open>Approve\<close> and \<open>WithExecutedAt\<close> a
  non-terminal one.
\<close>

theorem transitions_overwrite_status:
  "Alert_Status (Alert_WithStatus a s now) = s
   \<and> Alert_Status (Alert_Resolve a now) = AlertStatusResolved
   \<and> Action_Status (Action_WithStatus b s now) = s
   \<and> Action_Status (Action_Approve b who now) = ActionStatusApproved
   \<and> Action_Status (Action_Reject b who now) = ActionStatusRejected
   \<and> Action_Status (Action_Complete b out now) = ActionStatusCompleted
   \<and> Action_Status (Action_Fail b msg now) = ActionStatusFailed
   \<and> Action_Status (Action_WithExecutedAt b t now) = ActionStatusExecuting
   \<and> Alert_IsTerminal (Alert_Resolve a now)
   \<and> Alert_IsTerminal (Alert_WithStatus a s now)
        = (s \<in> set [AlertStatusResolved, AlertStatusFailed, AlertStatusDuplicate,
                      AlertStatusSilenced])
   \<and> Action_IsTerminal (Action_WithStatus b s now)
        = (s \<in> set [ActionStatusCompleted, ActionStatusFailed, ActionStatusRejected,
                      ActionStatusRolledBack])
   \<and> Action_IsTerminal (Action_Reject b who now)
   \<and> Action_IsTerminal (Action_Complete b out now)
   \<and> Action_IsTerminal (Action_Fail b msg now)
   \<and> \<not> Action_IsTerminal (Action_Approve b who now)
   \<and> \<not> Action_IsTerminal (Action_WithExecutedAt b t now)"
  by (simp add: Alert_IsTerminal_def Alert_Resolve_def Alert_WithStatus_def
        Action_IsTerminal_def Action_Complete_def Action_Approve_def Action_WithExecutedAt_def
        Action_WithStatus_def Action_Reject_def Action_Fail_def)

subsection \<open>The last messages of a thread\<close>

lemma wrap64_id: "- (2 ^ 63) \<le> x \<Longrightarrow> x < 2 ^ 63 \<Longrightarrow> wrap64 x = x"
  by (simp add: wrap64_def)

lemma mod_second_period:
  fixes y b :: int
  assumes "b \<le> y" and "y < 2 * b"
  shows "y mod b = y - b"
proof -
  have "y mod b = (y - b) mod b" by simp
  also have "\<dots> = y - b" using assms by (intro mod_pos_pos_trivial) simp_all
  finally show ?thesis .
qed

lemma wrap64_high:
  assumes "2 ^ 63 \<le> x" and "x < 2 ^ 64"
  shows "wrap64 x = x - 2 ^ 64"
  using assms mod_second_period [of "2 ^ 64" "x + 2 ^ 63"] by (simp add: wrap64_def)

text \<open>
  C10. For \<open>n\<close> and a message count in the range of Go's \<open>int\<close>: when \<open>n\<close> is not
  negative, \<open>LastNMessages n\<close> returns, without a panic, the last \<open>min n len\<close> messages in
  their order (all of them when \<open>n \<ge> len\<close>); when \<open>n\<close> is negative and the thread has a
  message, the slice expression is out of bounds.
\<close>

theorem LastNMessages_bounds:
  assumes "- (2 ^ 63) \<le> n" and "n < 2 ^ 63"
    and "int (length (Thread_Messages c)) < 2 ^ 63"
  shows "(0 \<le> n \<longrightarrow>
            LastNMessages c n
              = Inr (drop (length (Thread_Messages c) - min (nat n) (length (Thread_Messages c)))
                       (Thread_Messages c)))
       \<and> (n < 0 \<and> Thread_Messages c \<noteq> [] \<longrightarrow> LastNMessages c n = Inl SliceBoundsOutOfRange)"
proof (intro conjI impI)
  assume nonneg: "0 \<le> n"
  show "LastNMessages c n
          = Inr (drop (length (Thread_Messages c) - min (nat n) (length (Thread_Messages c)))
                   (Thread_Messages c))"
  proof (cases "n \<ge> int (length (Thread_Messages c))")
    case True
    then have "min (nat n) (length (Thread_Messages c)) = length (Thread_Messages c)"
      using nonneg by linarith
    with True show ?thesis by (simp add: LastNMessages_def)
  next
    case False
    then have small: "nat n < length (Thread_Messages c)" using nonneg by linarith
    have "wrap64 (int (length (Thread_Messages c)) - n) = int (length (Thread_Messages c)) - n"
      using assms nonneg False by (intro wrap64_id) linarith+
    moreover have "nat (int (length (Thread_Messages c)) - n)
                     = length (Thread_Messages c) - nat n"
      using nonneg by linarith
    moreover have "min (nat n) (length (Thread_Messages c)) = nat n"
      using small by simp
    ultimately show ?thesis using False nonneg by (simp add: LastNMessages_def Let_def)
  qed
next
  assume neg: "n < 0 \<and> Thread_Messages c \<noteq> []"
  let ?len = "int (length (Thread_Messages c))"
  have pow: "(2::int) ^ 64 = 2 * 2 ^ 63" by simp
  have notge: "\<not> n \<ge> ?len" using neg by linarith
  have "\<not> (0 \<le> wrap64 (?len - n) \<and> wrap64 (?len - n) \<le> ?len)"
  proof (cases "?len - n < 2 ^ 63")
    case True
    then have "wrap64 (?len - n) = ?len - n"
      using neg by (intro wrap64_id) linarith+
    then show ?thesis using neg by linarith
  next
    case False
    then have "wrap64 (?len - n) = ?len - n - 2 ^ 64"
      using assms pow by (intro wrap64_high) linarith+
    then show ?thesis using assms pow by linarith
  qed
  with notge show "LastNMessages c n = Inl SliceBoundsOutOfRange"
    by (simp add: LastNMessages_def Let_def)
qed

theorem LastNMessages_bounds_witness:
  "LastNMessages sampleThread 2 = Inr [sampleMessage ''two'', sampleMessage ''three'']
   \<and> LastNMessages sampleThread 5 = Inr (Thread_Messages sampleThread)
   \<and> LastNMessages sampleThread (- 1) = Inl SliceBoundsOutOfRange"
  using LastNMessages_bounds [of 2 sampleThread] LastNMessages_bounds [of 5 sampleThread]
    LastNMessages_bounds [of "- 1" sampleThread]
  by (simp add: sampleThread_def)

subsection \<open>Policy evaluation\<close>

lemma riskLevels_cases:
  "r \<in> set riskLevels \<longleftrightarrow> r = RiskLow \<or> r = RiskMedium \<or> r = RiskHigh \<or> r = RiskCritical"
  by (simp add: riskLevels_def)

lemma riskOrder_simps:
  "riskOrder RiskLow = Some 0" "riskOrder RiskMedium = Some 1"
  "riskOrder RiskHigh = Some 2" "riskOrder RiskCritical = Some 3"
  by (simp_all add: riskOrder_def)

lemma riskOrder_None: "r \<notin> set riskLevels \<Longrightarrow> riskOrder r = None"
  by (simp add: riskOrder_def riskLevels_def)

lemma riskAtMost_low: "riskAtMost RiskLow m \<longleftrightarrow> m \<in> set riskLevels"
  by (simp add: riskAtMost_def riskLevels_def)

lemma riskAtMost_medium:
  "riskAtMost RiskMedium m \<longleftrightarrow> m = RiskMedium \<or> m = RiskHigh \<or> m = RiskCritical"
  by (simp add: riskAtMost_def riskLevels_def)

lemma riskAtMost_high: "riskAtMost RiskHigh m \<longleftrightarrow> m = RiskHigh \<or> m = RiskCritical"
  by (simp add: riskAtMost_def riskLevels_def)

lemma riskAtMost_critical: "riskAtMost RiskCritical m \<longleftrightarrow> m = RiskCritical"
  by (simp add: riskAtMost_def riskLevels_def)

lemma isRiskAcceptable_low:
  assumes "m \<in> set riskLevels" shows "isRiskAcceptable RiskLow m = riskAtMost RiskLow m"
  using assms unfolding riskAtMost_low riskLevels_cases
  by (elim disjE) (simp_all add: isRiskAcceptable_def riskOrder_simps riskLevels_def)

lemma isRiskAcceptable_medium:
  assumes "m \<in> set riskLevels" shows "isRiskAcceptable RiskMedium m = riskAtMost RiskMedium m"
  using assms unfolding riskAtMost_medium riskLevels_cases
  by (elim disjE) (simp_all add: isRiskAcceptable_def riskOrder_simps)

lemma isRiskAcceptable_high:
  assumes "m \<in> set riskLevels" shows "isRiskAcceptable RiskHigh m = riskAtMost RiskHigh m"
  using assms unfolding riskAtMost_high riskLevels_cases
  by (elim disjE) (simp_all add: isRiskAcceptable_def riskOrder_simps)

lemma isRiskAcceptable_critical:
  assumes "m \<in> set riskLevels"
  shows "isRiskAcceptable RiskCritical m = riskAtMost RiskCritical m"
  using assms unfolding riskAtMost_critical riskLevels_cases
  by (elim disjE) (simp_all add: isRiskAcceptable_def riskOrder_simps)

lemma isRiskAcceptable_riskAtMost:
  assumes "r \<in> set riskLevels" and "m \<in> set riskLevels"
  shows "isRiskAcceptable r m = riskAtMost r m"
  using assms(1) unfolding riskLevels_cases
  by (elim disjE)
    (simp_all only: isRiskAcceptable_low isRiskAcceptable_medium isRiskAcceptable_high
       isRiskAcceptable_critical assms(2))

lemma isRiskAcceptable_unknown:
  assumes "r \<notin> set riskLevels \<or> m \<notin> set riskLevels"
  shows "\<not> isRiskAcceptable r m"
  using assms by (auto simp add: isRiskAcceptable_def riskOrder_None split: option.splits)

lemma Evaluate_AutoExecute:
  assumes "lookup environment = Inr policy" and "Policy_Enabled policy"
  shows "Decision_AutoExecute (fst (Evaluate lookup environment action))
           = (isRiskAcceptable (Action_Risk action) (Policy_MaxAutoRisk policy)
              \<and> (Policy_Mode policy = PolicyModeAutoFix \<or> Policy_Mode policy = PolicyModeWarnAuto))"
  using assms by (simp add: Evaluate_def Let_def)

text \<open>
  C3. For an enabled policy: when both risks are among low, medium, high and critical, the
  decision executes automatically exactly when the action's risk is at most the policy's
  maximum (in the order low < medium < high < critical) and the mode is \<open>auto_fix\<close> or
  \<open>warn_auto\<close>; under \<open>approval_required\<close> it never does, whatever the risk; and a risk
  outside the four levels is never acceptable (and never executed automatically).
\<close>

theorem Evaluate_autoExecute_iff:
  assumes "lookup environment = Inr policy" and "Policy_Enabled policy"
  shows "(Action_Risk action \<in> set riskLevels \<and> Policy_MaxAutoRisk policy \<in> set riskLevels \<longrightarrow>
            Decision_AutoExecute (fst (Evaluate lookup environment action))
              = (riskAtMost (Action_Risk action) (Policy_MaxAutoRisk policy)
                 \<and> Policy_Mode policy \<in> {PolicyModeAutoFix, PolicyModeWarnAuto}))
       \<and> (Policy_Mode policy = PolicyModeApprovalRequired \<longrightarrow>
            \<not> Decision_AutoExecute (fst (Evaluate lookup environment action)))
       \<and> (Action_Risk action \<notin> set riskLevels \<or> Policy_MaxAutoRisk policy \<notin> set riskLevels \<longrightarrow>
            \<not> isRiskAcceptable (Action_Risk action) (Policy_MaxAutoRisk policy)
            \<and> \<not> Decision_AutoExecute (fst (Evaluate lookup environment action)))"
proof (intro conjI impI)
  assume "Action_Risk action \<in> set riskLevels \<and> Policy_MaxAutoRisk policy \<in> set riskLevels"
  then show "Decision_AutoExecute (fst (Evaluate lookup environment action))
              = (riskAtMost (Action_Risk action) (Policy_MaxAutoRisk policy)
                 \<and> Policy_Mode policy \<in> {PolicyModeAutoFix, PolicyModeWarnAuto})"
    using Evaluate_AutoExecute [of lookup environment policy action, OF assms]
      isRiskAcceptable_riskAtMost by simp
next
  assume "Policy_Mode policy = PolicyModeApprovalRequired"
  then show "\<not> Decision_AutoExecute (fst (Evaluate lookup environment action))"
    using Evaluate_AutoExecute [of lookup environment policy action, OF assms] by simp
next
  assume unknown:
    "Action_Risk action \<notin> set riskLevels \<or> Policy_MaxAutoRisk policy \<notin> set riskLevels"
  then show "\<not> isRiskAcceptable (Action_Risk action) (Policy_MaxAutoRisk policy)"
    by (rule isRiskAcceptable_unknown)
  then show "\<not> Decision_AutoExecute (fst (Evaluate lookup environment action))"
    using Evaluate_AutoExecute [of lookup environment policy action, OF assms] by simp
qed

theorem Evaluate_autoExecute_iff_witness:
  "Decision_AutoExecute
     (fst (Evaluate (\<lambda>_. Inr (samplePolicy PolicyModeAutoFix RiskMedium)) ''dev''
             (zeroAction\<lparr>Action_Risk := RiskLow\<rparr>)))
   \<and> \<not> Decision_AutoExecute
     (fst (Evaluate (\<lambda>_. Inr (samplePolicy PolicyModeWarnAuto RiskMedium)) ''dev''
             (zeroAction\<lparr>Action_Risk := RiskHigh\<rparr>)))
   \<and> \<not> Decision_AutoExecute
     (fst (Evaluate (\<lambda>_. Inr (samplePolicy PolicyModeApprovalRequired RiskCritical)) ''prod''
             (zeroAction\<lparr>Action_Risk := RiskLow\<rparr>)))
   \<and> \<not> isRiskAcceptable ''extreme'' RiskCritical"
  using
    Evaluate_autoExecute_iff [of "\<lambda>_. Inr (samplePolicy PolicyModeAutoFix RiskMedium)" "''dev''"
      "samplePolicy PolicyModeAutoFix RiskMedium" "zeroAction\<lparr>Action_Risk := RiskLow\<rparr>"]
    Evaluate_autoExecute_iff [of "\<lambda>_. Inr (samplePolicy PolicyModeWarnAuto RiskMedium)" "''dev''"
      "samplePolicy PolicyModeWarnAuto RiskMedium" "zeroAction\<lparr>Action_Risk := RiskHigh\<rparr>"]
    Evaluate_autoExecute_iff [of "\<lambda>_. Inr (samplePolicy PolicyModeApprovalRequired RiskCritical)"
      "''prod''" "samplePolicy PolicyModeApprovalRequired RiskCritical"
      "zeroAction\<lparr>Action_Risk := RiskLow\<rparr>"]
    Evaluate_autoExecute_iff [of "\<lambda>_. Inr (samplePolicy PolicyModeAutoFix RiskCritical)" "''dev''"
      "samplePolicy PolicyModeAutoFix RiskCritical" "zeroAction\<lparr>Action_Risk := ''extreme''\<rparr>"]
  by (simp add: samplePolicy_def zeroPolicy_def zeroAction_def riskLevels_def riskAtMost_def)

text \<open>
  C5. When the policy lookup for the environment fails, \<open>Evaluate\<close> returns no error and a
  fail-safe decision: the action is allowed, needs approval and is not executed automatically.
\<close>

theorem Evaluate_lookup_failure:
  assumes "lookup environment = Inl e"
  shows "snd (Evaluate lookup environment action) = None
       \<and> Decision_Allowed (fst (Evaluate lookup environment action))
       \<and> Decision_NeedsApproval (fst (Evaluate lookup environment action))
       \<and> \<not> Decision_AutoExecute (fst (Evaluate lookup environment action))"
  using assms by (simp add: Evaluate_def)

theorem Evaluate_lookup_failure_witness:
  "snd (Evaluate (\<lambda>_. Inl ''db down'') ''prod'' zeroAction) = None
       \<and> Decision_Allowed (fst (Evaluate (\<lambda>_. Inl ''db down'') ''prod'' zeroAction))
       \<and> Decision_NeedsApproval (fst (Evaluate (\<lambda>_. Inl ''db down'') ''prod'' zeroAction))
       \<and> \<not> Decision_AutoExecute (fst (Evaluate (\<lambda>_. Inl ''db down'') ''prod'' zeroAction))"
  using Evaluate_lookup_failure [of "\<lambda>_. Inl ''db down''" "''prod''" "''db down''" zeroAction]
  by simp

text \<open>
  C6. When the policy found for the environment is disabled, the decision is not allowed
  (and neither asks for approval nor executes automatically); no error is returned.
\<close>

theorem Evaluate_disabled:
  assumes "lookup environment = Inr policy" and "\<not> Policy_Enabled policy"
  shows "\<not> Decision_Allowed (fst (Evaluate lookup environment action))
       \<and> \<not> Decision_NeedsApproval (fst (Evaluate lookup environment action))
       \<and> \<not> Decision_AutoExecute (fst (Evaluate lookup environment action))
       \<and> snd (Evaluate lookup environment action) = None"
  using assms by (simp add: Evaluate_def)

theorem Evaluate_disabled_witness:
  "\<not> Policy_Enabled zeroPolicy
       \<and> \<not> Decision_Allowed (fst (Evaluate (\<lambda>_. Inr zeroPolicy) ''prod'' zeroAction))
       \<and> \<not> Decision_NeedsApproval (fst (Evaluate (\<lambda>_. Inr zeroPolicy) ''prod'' zeroAction))
       \<and> \<not> Decision_AutoExecute (fst (Evaluate (\<lambda>_. Inr zeroPolicy) ''prod'' zeroAction))
       \<and> snd (Evaluate (\<lambda>_. Inr zeroPolicy) ''prod'' zeroAction) = None"
  using Evaluate_disabled [of "\<lambda>_. Inr zeroPolicy" "''prod''" zeroPolicy zeroAction]
  by (simp add: zeroPolicy_def)

subsection \<open>Action planning\<close>

lemma highestRisk_chain:
  "highestRisk rs =
     (if RiskCritical \<in> set rs then RiskCritical
      else if RiskHigh \<in> set rs then RiskHigh
      else if RiskMedium \<in> set rs then RiskMedium
      else RiskLow)"
  by (simp add: highestRisk_def riskLevels_def)

lemma riskOrder_Some:
  "riskOrder r = Some n \<longleftrightarrow>
     r = RiskLow \<and> n = 0 \<or> r = RiskMedium \<and> n = 1 \<or> r = RiskHigh \<and> n = 2
     \<or> r = RiskCritical \<and> n = 3"
  by (auto simp add: riskOrder_def)

lemma riskOrder_None_iff:
  "riskOrder r = None \<longleftrightarrow> r \<noteq> RiskLow \<and> r \<noteq> RiskMedium \<and> r \<noteq> RiskHigh \<and> r \<noteq> RiskCritical"
  by (auto simp add: riskOrder_def)

lemma highestRisk_raise:
  assumes "graded mr mv" and "riskOrder r = Some n" and "n > mv"
  shows "highestRisk (orLow mr # r # rs) = highestRisk (orLow r # rs)"
  using assms unfolding graded_def riskOrder_Some highestRisk_chain orLow_def
  by (elim disjE conjE) simp_all

lemma highestRisk_keep:
  assumes "graded mr mv" and "riskOrder r = Some n" and "\<not> n > mv"
  shows "highestRisk (orLow mr # r # rs) = highestRisk (orLow mr # rs)"
  using assms unfolding graded_def riskOrder_Some highestRisk_chain orLow_def
  by (elim disjE conjE) simp_all

lemma highestRisk_ungraded:
  assumes "riskOrder r = None"
  shows "highestRisk (x # r # rs) = highestRisk (x # rs)"
  using assms unfolding riskOrder_None_iff highestRisk_chain by auto

lemma highestRisk_low: "highestRisk (RiskLow # rs) = highestRisk rs"
  by (simp add: highestRisk_chain)

lemma toRiskLevel_highestRisk: "toRiskLevel (highestRisk rs) = highestRisk rs"
  by (simp add: highestRisk_chain toRiskLevel_def)

lemma surviving_Nil [simp]: "surviving env [] = []"
  by (simp add: surviving_def)

lemma validatedRisks_Nil [simp]: "validatedRisks env [] = []"
  by (simp add: validatedRisks_def)

lemma validatedRisks_Cons [simp]:
  "validatedRisks env (c # cs)
     = Validation_Risk (Env_ValidateCommand env (Fields c)) # validatedRisks env cs"
  by (simp add: validatedRisks_def)

lemma validateEach_result:
  assumes "graded mr mv"
  shows "\<exists>mr' dr' mv'.
           validateEach env cmds (al, mr, dr, mv, da)
             = (al @ surviving env cmds, mr', dr', mv', da \<and> surviving env cmds = [])
           \<and> graded mr' mv'
           \<and> highestRisk (orLow mr' # rs)
               = highestRisk (orLow mr # validatedRisks env (surviving env cmds) @ rs)"
  using assms
proof (induction cmds arbitrary: al mr dr mv da)
  case Nil
  then show ?case by simp
next
  case (Cons cmd cmds)
  let ?v = "Env_ValidateCommand env (Fields cmd)"
  show ?case
  proof (cases "Fields cmd = [] \<or> \<not> Validation_Allowed ?v")
    case True
    then have skip: "surviving env (cmd # cmds) = surviving env cmds"
      by (auto simp add: surviving_def)
    from True consider "Fields cmd = []" | "Fields cmd \<noteq> []" "\<not> Validation_Allowed ?v"
      by blast
    then show ?thesis
    proof cases
      case 1
      then show ?thesis using Cons.IH [OF Cons.prems, of al dr da] skip by simp
    next
      case 2
      then show ?thesis
        using Cons.IH [OF Cons.prems, of al "Validation_Reason ?v" da] skip
        by (simp add: Let_def)
    qed
  next
    case False
    then have parts: "Fields cmd \<noteq> []" and ok: "Validation_Allowed ?v" by simp_all
    have keep: "surviving env (cmd # cmds) = cmd # surviving env cmds"
      using parts ok by (simp add: surviving_def)
    show ?thesis
    proof (cases "riskOrder (Validation_Risk ?v)")
      case None
      obtain mr' dr' mv' where
        step: "validateEach env cmds (al @ [cmd], mr, dr, mv, False)
                 = ((al @ [cmd]) @ surviving env cmds, mr', dr', mv',
                    False \<and> surviving env cmds = [])"
        and g: "graded mr' mv'"
        and h: "highestRisk (orLow mr' # rs)
                  = highestRisk (orLow mr # validatedRisks env (surviving env cmds) @ rs)"
        using Cons.IH [OF Cons.prems, of "al @ [cmd]" dr False] by blast
      have "highestRisk (orLow mr # validatedRisks env (surviving env (cmd # cmds)) @ rs)
              = highestRisk (orLow mr # validatedRisks env (surviving env cmds) @ rs)"
        using highestRisk_ungraded [OF None] keep by simp
      then show ?thesis using step g h parts ok None keep by (simp add: Let_def)
    next
      case (Some n)
      show ?thesis
      proof (cases "n > mv")
        case True
        have g0: "graded (Validation_Risk ?v) n" using Some by (simp add: graded_def)
        obtain mr' dr' mv' where
          step: "validateEach env cmds (al @ [cmd], Validation_Risk ?v, dr, n, False)
                   = ((al @ [cmd]) @ surviving env cmds, mr', dr', mv',
                      False \<and> surviving env cmds = [])"
          and g: "graded mr' mv'"
          and h: "highestRisk (orLow mr' # rs)
                    = highestRisk (orLow (Validation_Risk ?v)
                                     # validatedRisks env (surviving env cmds) @ rs)"
          using Cons.IH [OF g0, of "al @ [cmd]" dr False] by blast
        have "highestRisk (orLow mr # validatedRisks env (surviving env (cmd # cmds)) @ rs)
                = highestRisk (orLow (Validation_Risk ?v)
                                 # validatedRisks env (surviving env cmds) @ rs)"
          using highestRisk_raise [OF Cons.prems Some True] keep by simp
        then show ?thesis using step g h parts ok Some True keep by (simp add: Let_def)
      next
        case False
        obtain mr' dr' mv' where
          step: "validateEach env cmds (al @ [cmd], mr, dr, mv, False)
                   = ((al @ [cmd]) @ surviving env cmds, mr', dr', mv',
                      False \<and> surviving env cmds = [])"
          and g: "graded mr' mv'"
          and h: "highestRisk (orLow mr' # rs)
                    = highestRisk (orLow mr # validatedRisks env (surviving env cmds) @ rs)"
          using Cons.IH [OF Cons.prems, of "al @ [cmd]" dr False] by blast
        have "highestRisk (orLow mr # validatedRisks env (surviving env (cmd # cmds)) @ rs)
                = highestRisk (orLow mr # validatedRisks env (surviving env cmds) @ rs)"
          using highestRisk_keep [OF Cons.prems Some False] keep by simp
        then show ?thesis using step g h parts ok Some False keep by (simp add: Let_def)
      qed
    qed
  qed
qed

lemma graded_level: "graded mr mv \<Longrightarrow> toRiskLevel (orLow mr) = orLow mr"
  unfolding graded_def riskOrder_Some orLow_def toRiskLevel_def by auto

lemma graded_highest: "graded mr mv \<Longrightarrow> highestRisk [orLow mr] = orLow mr"
  unfolding graded_def riskOrder_Some orLow_def highestRisk_chain by auto

lemma validateCommands_none:
  assumes "surviving env commands = []"
  shows "snd (snd (validateCommands env commands)) \<noteq> []
         \<or> fst (validateCommands env commands) = []"
proof -
  obtain mr' dr' mv' where
    "validateEach env commands ([], [], [], - 1, True) = ([] @ surviving env commands, mr', dr', mv', True \<and> surviving env commands = [])"
    using validateEach_result [of "[]" "- 1" env commands "[]" "[]" True "[]"]
    by (auto simp add: graded_def)
  then show ?thesis using assms by (simp add: validateCommands_def)
qed

lemma validateCommands_some:
  assumes "surviving env commands \<noteq> []"
  shows "validateCommands env commands
           = (surviving env commands,
              highestRisk (validatedRisks env (surviving env commands)), [])"
proof -
  obtain mr' dr' mv' where
    step: "validateEach env commands ([], [], [], - 1, True)
             = ([] @ surviving env commands, mr', dr', mv', True \<and> surviving env commands = [])"
    and g: "graded mr' mv'"
    and h: "highestRisk (orLow mr' # [])
              = highestRisk (orLow [] # validatedRisks env (surviving env commands) @ [])"
    using validateEach_result [of "[]" "- 1" env commands "[]" "[]" True "[]"]
    by (auto simp add: graded_def)
  have "orLow mr' = highestRisk (validatedRisks env (surviving env commands))"
    using h graded_highest [OF g] by (simp add: orLow_def highestRisk_low)
  then show ?thesis using step assms
    by (auto simp add: validateCommands_def orLow_def split: if_splits)
qed

lemma planEach_kept:
  "map (\<lambda>a. (Action_Commands a, Action_Risk a)) (fst (planEach env analysisID alertID suggestions environment ns actions w))
     = map (\<lambda>a. (Action_Commands a, Action_Risk a)) actions
       @ map (\<lambda>cs. (cs, highestRisk (validatedRisks env cs)))
           (filter (\<lambda>cs. cs \<noteq> [])
              (map (\<lambda>s. surviving env (Suggestion_Commands s)) suggestions))"
proof (induction suggestions arbitrary: actions w)
  case Nil
  then show ?case by simp
next
  case (Cons s ss)
  show ?case
  proof (cases "surviving env (Suggestion_Commands s) = []")
    case True
    obtain validCmds risk deny where
      v: "validateCommands env (Suggestion_Commands s) = (validCmds, risk, deny)"
      by (cases "validateCommands env (Suggestion_Commands s)") auto
    then have "deny \<noteq> [] \<or> validCmds = []"
      using validateCommands_none [OF True] by simp
    then show ?thesis using v True Cons.IH by auto
  next
    case False
    note v = validateCommands_some [OF False]
    show ?thesis
      using False
      by (simp add: v Let_def timeNow_def generateID_def Cons.IH
            toRiskLevel_highestRisk NewAction_def Action_WithEnvironment_def
            Action_WithNamespace_def Action_WithReversible_def)
  qed
qed

text \<open>
  An example: of two suggestions, the first keeps its command \<open>ls /tmp\<close>, written with a
  no-break space, and loses \<open>rm -rf /\<close>; the second, with \<open>rm -rf /\<close> alone, is dropped.
\<close>

lemma Fields_plan_samples:
  "Fields ''ls'' = [''ls'']"
  "Fields ''rm'' = [''rm'']"
  "Fields spacedCommand = [''ls'', ''/tmp'']"
  "Fields ''rm -rf /'' = [''rm'', ''-rf'', ''/'']"
  by (simp_all add: spacedCommand_def Fields_def spaceWidth_def whiteSpace_def HasPrefix_def)

lemma Plan_unicode_space:
  "fst (Plan sampleEnv ''analysis-1'' ''alert-1''
          [\<lparr>Suggestion_Description = ''look'',
            Suggestion_Commands = [spacedCommand, ''rm -rf /''],
            Suggestion_Risk = ''low'', Suggestion_Reversible = False\<rparr>,
           \<lparr>Suggestion_Description = ''wipe'', Suggestion_Commands = [''rm -rf /''],
            Suggestion_Risk = ''low'', Suggestion_Reversible = False\<rparr>]
          ''prod'' ''shop'' [])
     = Inr [\<lparr>Action_ID = [CHR ''i''], Action_AnalysisID = ''analysis-1'',
             Action_AlertID = ''alert-1'', Action_Type = ActionTypeKubectl,
             Action_Status = ActionStatusPlanned, Action_Description = ''look'',
             Action_Commands = [spacedCommand],
             Action_Risk = RiskLow, Action_Reversible = False, Action_Output = [],
             Action_ErrorMessage = [], Action_ApprovedBy = [], Action_ApprovedAt = None,
             Action_ExecutedAt = None, Action_CompletedAt = None,
             Action_Environment = ''prod'', Action_Namespace = ''shop'',
             Action_TargetResource = [], Action_Metadata = [], Action_CreatedAt = 0,
             Action_UpdatedAt = 4\<rparr>]"
  by (simp add: Plan_def validateCommands_def inferActionType_def toRiskLevel_def riskOrder_def
        sampleEnv_def Fields_plan_samples ValidateCommand_def ValidateExecCommand_def
        IsExecAllowed_def ToLower_def toLowerByte_def defaultTestWhitelist_exec
        defaultTestWhitelist_blockedNS IsNamespaceBlocked_def HasPrefix_def TrimPrefix_def
        Let_def timeNow_def generateID_def NewAction_def Action_WithEnvironment_def
        Action_WithNamespace_def Action_WithReversible_def)

text \<open>
  C7. \<open>Plan\<close> returns no error, and its actions are, in order, those of the suggestions
  that have a surviving command: a suggestion whose commands are all denied (or that has
  none) yields no action, every other one yields an action whose commands are exactly its
  surviving commands and whose risk is the highest validated risk among them, low when none
  of them has one of the four risk grades.
\<close>

theorem Plan_keeps_surviving:
  "\<exists>actions.
     fst (Plan env analysisID alertID suggestions environment ns w) = Inr actions
     \<and> map (\<lambda>a. (Action_Commands a, Action_Risk a)) actions
         = map (\<lambda>cs. (cs, highestRisk (validatedRisks env cs)))
             (filter (\<lambda>cs. cs \<noteq> [])
                (map (\<lambda>s. surviving env (Suggestion_Commands s)) suggestions))"
proof -
  obtain actions w' where
    p: "planEach env analysisID alertID suggestions environment ns [] w = (actions, w')"
    by (cases "planEach env analysisID alertID suggestions environment ns [] w") auto
  have "map (\<lambda>a. (Action_Commands a, Action_Risk a)) actions
          = map (\<lambda>cs. (cs, highestRisk (validatedRisks env cs)))
              (filter (\<lambda>cs. cs \<noteq> [])
                 (map (\<lambda>s. surviving env (Suggestion_Commands s)) suggestions))"
    using planEach_kept [of env analysisID alertID suggestions environment ns "[]" w] p
    by simp
  then show ?thesis using p by (simp add: Plan_def)
qed

subsection \<open>Execution of an action\<close>

lemma execCalls_append: "execCalls (w @ v) = execCalls w @ execCalls v"
  by (induction w rule: execCalls.induct) simp_all

lemma execCalls_requests: "execCalls (map (\<lambda>c. K8s_Exec (f c)) cmds) = map f cmds"
  by (induction cmds) simp_all

lemma execCommands_ok:
  "commandsOK env a w cmds \<Longrightarrow>
     execCommands env a cmds outs w
       = ((outs @ stdouts env a w cmds, None), w @ map (\<lambda>c. K8s_Exec (execRequest a c)) cmds)"
  by (induction cmds arbitrary: outs w) (auto split: sum.splits)

lemma execCommands_fail:
  "\<not> commandsOK env a w cmds \<Longrightarrow>
     \<exists>k e outs'. k < length cmds \<and> commandsOK env a w (take k cmds)
        \<and> \<not> commandsOK env a w (take (Suc k) cmds)
        \<and> execCommands env a cmds outs w
            = ((outs', Some e), w @ map (\<lambda>c. K8s_Exec (execRequest a c)) (take (Suc k) cmds))"
proof (induction cmds arbitrary: outs w)
  case Nil
  then show ?case by simp
next
  case (Cons cmd cmds)
  show ?case
  proof (cases "Env_Exec env w (execRequest a cmd)")
    case (Inl e)
    then show ?thesis by (intro exI [of _ 0]) simp
  next
    case (Inr result)
    show ?thesis
    proof (cases "Result_ExitCode result = 0")
      case False
      then show ?thesis using Inr by (intro exI [of _ 0]) simp
    next
      case True
      then have "\<not> commandsOK env a (w @ [K8s_Exec (execRequest a cmd)]) cmds"
        using Cons.prems Inr by simp
      from Cons.IH [OF this, of "outs @ [Result_Stdout result]"]
      obtain k e outs' where
        "k < length cmds"
        "commandsOK env a (w @ [K8s_Exec (execRequest a cmd)]) (take k cmds)"
        "\<not> commandsOK env a (w @ [K8s_Exec (execRequest a cmd)]) (take (Suc k) cmds)"
        "execCommands env a cmds (outs @ [Result_Stdout result])
           (w @ [K8s_Exec (execRequest a cmd)])
           = ((outs', Some e),
              (w @ [K8s_Exec (execRequest a cmd)])
                @ map (\<lambda>c. K8s_Exec (execRequest a c)) (take (Suc k) cmds))"
        by blast
      then show ?thesis using Inr True
        by (intro exI [of _ "Suc k"] exI [of _ e] exI [of _ outs']) simp
    qed
  qed
qed

lemma execRequest_WithExecutedAt [simp]:
  "execRequest (Action_WithExecutedAt action t now) = execRequest action"
  by (rule ext) (simp add: execRequest_def Action_WithExecutedAt_def)

lemma commandsOK_cong_request:
  "execRequest a = execRequest b \<Longrightarrow> commandsOK env a w cmds = commandsOK env b w cmds"
  by (induction cmds arbitrary: w) (simp_all split: sum.splits)

lemma stdouts_cong_request:
  "execRequest a = execRequest b \<Longrightarrow> stdouts env a w cmds = stdouts env b w cmds"
  by (induction cmds arbitrary: w) (simp_all split: sum.splits)

lemma commandsOK_take:
  "commandsOK env a w cmds \<Longrightarrow> commandsOK env a w (take n cmds)"
proof (induction cmds arbitrary: n w)
  case Nil
  then show ?case by simp
next
  case (Cons cmd cmds)
  then show ?case by (cases n) (auto split: sum.splits)
qed

lemma executeAction_after_loop:
  assumes "execCommands env (Action_WithExecutedAt action (Env_Now env w) (Env_Now env (w @ [Time_Now])))
             (Action_Commands action) [] (w @ [Time_Now, Time_Now]) = ((outputs, execErr), w1)"
  shows "fst (executeAction env action w)
           = ((case execErr of
                 Some e \<Rightarrow>
                   Action_Fail
                     (Action_WithExecutedAt action (Env_Now env w) (Env_Now env (w @ [Time_Now])))
                     e (Env_Now env w1)
               | None \<Rightarrow>
                   Action_Complete
                     (Action_WithExecutedAt action (Env_Now env w) (Env_Now env (w @ [Time_Now])))
                     (Join outputs [CHR 0x0A]) (Env_Now env w1)), execErr)"
    and "execCalls (snd (executeAction env action w)) = execCalls w1"
  using assms
  by (simp_all add: executeAction_def Let_def timeNow_def generateID_def newAuditLog_def
        logAudit_def execCalls_append Action_WithExecutedAt_def split: option.splits)

lemmas executeAction_eval =
  executeAction_def Let_def timeNow_def generateID_def newAuditLog_def logAudit_def
  sampleEnv_def sampleExec_def sampleAction_def zeroAction_def execRequest_def Fields_samples
  Action_WithExecutedAt_def Action_Fail_def
  Action_Complete_def NewAuditLog_def
  Audit_WithActionID_def quoted_def showInt_def showNat.simps

text \<open>
  C9 (as stated). On failure the action is said to carry the error as its output. This
  fails: when the second of three commands exits with code 1, the action returned is failed,
  its output is still empty and the error is its error message.
\<close>

theorem executeAction_failure_output:
  "snd (fst (executeAction sampleEnv (sampleAction [''ls /tmp'', ''false'', ''ps'']) []))
     = Some (''command '' @ quoted ''false'' @ '' exited with code 1: boom'')
   \<and> Action_Status
        (fst (fst (executeAction sampleEnv (sampleAction [''ls /tmp'', ''false'', ''ps'']) [])))
       = ActionStatusFailed
   \<and> Action_Output
        (fst (fst (executeAction sampleEnv (sampleAction [''ls /tmp'', ''false'', ''ps'']) [])))
       = []
   \<and> Action_ErrorMessage
        (fst (fst (executeAction sampleEnv (sampleAction [''ls /tmp'', ''false'', ''ps'']) [])))
       = ''command '' @ quoted ''false'' @ '' exited with code 1: boom''
   \<and> Action_Output
        (fst (fst (executeAction sampleEnv (sampleAction [''ls /tmp'', ''false'', ''ps'']) [])))
       \<noteq> ''command '' @ quoted ''false'' @ '' exited with code 1: boom''"
  by (simp add: executeAction_eval)

text \<open>
  C9 (amended). \<open>executeAction\<close> records the execution time (marking the action executing),
  then sends the commands to the cluster in their order, as many as the history shows: all
  but the last of these ran without error and with exit code 0. When it returns no error,
  all commands ran that way, the action is completed and its output is their standard
  outputs joined by newlines. When it returns an error, the last command sent is the first
  that erred or exited non-zero, the action is failed, the error is its error message and
  its output is left as it was.
\<close>

theorem executeAction_outcome:
  "execCalls (snd (executeAction env action w))
     = execCalls w
       @ map (execRequest action)
           (take (length (execCalls (snd (executeAction env action w))) - length (execCalls w))
              (Action_Commands action))
   \<and> length (execCalls (snd (executeAction env action w))) - length (execCalls w)
       \<le> length (Action_Commands action)
   \<and> commandsOK env action (w @ [Time_Now, Time_Now])
       (take (length (execCalls (snd (executeAction env action w))) - length (execCalls w) - 1)
          (Action_Commands action))
   \<and> Action_ExecutedAt (fst (fst (executeAction env action w))) = Some (Env_Now env w)
   \<and> (snd (fst (executeAction env action w)) = None \<longrightarrow>
        commandsOK env action (w @ [Time_Now, Time_Now]) (Action_Commands action)
        \<and> length (execCalls (snd (executeAction env action w))) - length (execCalls w)
            = length (Action_Commands action)
        \<and> Action_Status (fst (fst (executeAction env action w))) = ActionStatusCompleted
        \<and> Action_Output (fst (fst (executeAction env action w)))
            = Join (stdouts env action (w @ [Time_Now, Time_Now]) (Action_Commands action))
                [CHR 0x0A])
   \<and> (\<forall>e. snd (fst (executeAction env action w)) = Some e \<longrightarrow>
        \<not> commandsOK env action (w @ [Time_Now, Time_Now])
            (take (length (execCalls (snd (executeAction env action w))) - length (execCalls w))
               (Action_Commands action))
        \<and> 0 < length (execCalls (snd (executeAction env action w))) - length (execCalls w)
        \<and> Action_Status (fst (fst (executeAction env action w))) = ActionStatusFailed
        \<and> Action_ErrorMessage (fst (fst (executeAction env action w))) = e
        \<and> Action_Output (fst (fst (executeAction env action w))) = Action_Output action)"
proof -
  let ?started = "Action_WithExecutedAt action (Env_Now env w) (Env_Now env (w @ [Time_Now]))"
  let ?w0 = "w @ [Time_Now, Time_Now]"
  let ?cmds = "Action_Commands action"
  have same: "execRequest ?started = execRequest action" by simp
  have ok_same: "\<And>cs. commandsOK env ?started ?w0 cs = commandsOK env action ?w0 cs"
    by (rule commandsOK_cong_request [OF same])
  have out_same: "\<And>cs. stdouts env ?started ?w0 cs = stdouts env action ?w0 cs"
    by (rule stdouts_cong_request [OF same])
  have calls0: "execCalls ?w0 = execCalls w" by (simp add: execCalls_append)
  show ?thesis
  proof (cases "commandsOK env action ?w0 ?cmds")
    case True
    then have loop: "execCommands env ?started ?cmds [] ?w0
                       = ((stdouts env action ?w0 ?cmds, None),
                          ?w0 @ map (\<lambda>c. K8s_Exec (execRequest action c)) ?cmds)"
      using execCommands_ok [of env ?started ?w0 ?cmds "[]"] ok_same out_same by simp
    note after = executeAction_after_loop [OF loop]
    have calls: "execCalls (snd (executeAction env action w))
                   = execCalls w @ map (execRequest action) ?cmds"
      using after(2) calls0 by (simp add: execCalls_append execCalls_requests)
    show ?thesis
      using True commandsOK_take [OF True]
      by (simp add: calls after(1) Action_Complete_def Action_WithExecutedAt_def)
  next
    case False
    then have "\<not> commandsOK env ?started ?w0 ?cmds" using ok_same by simp
    from execCommands_fail [OF this, of "[]"] obtain k e outs' where
      k: "k < length ?cmds"
      and before: "commandsOK env action ?w0 (take k ?cmds)"
      and failing: "\<not> commandsOK env action ?w0 (take (Suc k) ?cmds)"
      and loop: "execCommands env ?started ?cmds [] ?w0
                   = ((outs', Some e),
                      ?w0 @ map (\<lambda>c. K8s_Exec (execRequest ?started c)) (take (Suc k) ?cmds))"
      using ok_same by auto
    note after = executeAction_after_loop [OF loop]
    have calls: "execCalls (snd (executeAction env action w))
                   = execCalls w @ map (execRequest action) (take (Suc k) ?cmds)"
      using after(2) calls0 by (simp add: execCalls_append execCalls_requests)
    have count: "length (execCalls (snd (executeAction env action w))) - length (execCalls w)
                   = Suc k"
      using calls k by simp
    show ?thesis
      unfolding count
      using k before failing
      by (simp add: calls after(1) Action_Fail_def Action_WithExecutedAt_def)
  qed
qed

theorem executeAction_outcome_witness:
  "Action_Status (fst (fst (executeAction sampleEnv (sampleAction [''ls /tmp'', ''ps'']) [])))
     = ActionStatusCompleted
   \<and> Action_Output (fst (fst (executeAction sampleEnv (sampleAction [''ls /tmp'', ''ps'']) [])))
       = ''ls+/tmp'' @ [CHR 0x0A] @ ''ps''
   \<and> execCalls (snd (executeAction sampleEnv (sampleAction [''ls /tmp'', ''ps'']) []))
       = [execRequest zeroAction ''ls /tmp'', execRequest zeroAction ''ps'']
   \<and> execCalls (snd (executeAction sampleEnv (sampleAction [''ls /tmp'', ''hang'', ''ps'']) []))
       = [execRequest zeroAction ''ls /tmp'', execRequest zeroAction ''hang'']
   \<and> Action_Status
        (fst (fst (executeAction sampleEnv (sampleAction [''ls /tmp'', ''hang'', ''ps'']) [])))
       = ActionStatusFailed
   \<and> Action_ErrorMessage
        (fst (fst (executeAction sampleEnv (sampleAction [''ls /tmp'', ''hang'', ''ps'']) [])))
       = ''exec command '' @ quoted ''hang'' @ '': deadline exceeded''"
  using executeAction_outcome [of sampleEnv "sampleAction [''ls /tmp'', ''ps'']" "[]"]
    executeAction_outcome [of sampleEnv "sampleAction [''ls /tmp'', ''hang'', ''ps'']" "[]"]
  by (simp add: executeAction_eval)

subsection \<open>Analysis of an alert\<close>

lemma diagnoseCalls_append: "diagnoseCalls (w @ v) = diagnoseCalls w @ diagnoseCalls v"
  by (induction w rule: diagnoseCalls.induct) simp_all

lemma diagnoseCalls_describe:
  "diagnoseCalls (map (\<lambda>q. K8s_DescribeResource ns kind q) queries) = []"
  by (induction queries) simp_all

lemma runQueries_result:
  "snd (runQueries env alert queries parts w)
     = w @ map (\<lambda>q. K8s_DescribeResource (Alert_Namespace alert) ''pod'' q) queries
   \<and> length (fst (runQueries env alert queries parts w)) = length parts + length queries"
  by (induction queries arbitrary: parts w) (simp_all split: sum.splits)

lemma runFollowUpQueries_world:
  "snd (runFollowUpQueries env alert queries w)
     = w @ map (\<lambda>q. K8s_DescribeResource (Alert_Namespace alert) ''pod'' q) queries"
  using runQueries_result [of env alert queries "[]" w]
  by (cases "runQueries env alert queries [] w") (simp add: runFollowUpQueries_def)

lemma runFollowUpQueries_no_error:
  assumes "queries \<noteq> []"
  shows "\<exists>ctx. fst (runFollowUpQueries env alert queries w) = Inr ctx"
  using runQueries_result [of env alert queries "[]" w] assms
  by (cases "runQueries env alert queries [] w") (auto simp add: runFollowUpQueries_def)

lemma runFollowUpQueries_calls:
  "diagnoseCalls (snd (runFollowUpQueries env alert queries w)) = diagnoseCalls w"
  by (simp add: runFollowUpQueries_world diagnoseCalls_append diagnoseCalls_describe)

lemma gatherK8sContext_calls:
  "diagnoseCalls (snd (gatherK8sContext env alert w)) = diagnoseCalls w"
  by (simp add: gatherK8sContext_def Let_def diagnoseCalls_append split: sum.splits)

lemma followUpLoop_stop:
  assumes "\<not> (i < maxFollowUpIterations \<and> Diagnosis_NeedsMoreInfo result
               \<and> length (Diagnosis_FollowUpQueries result) > 0)"
  shows "followUpLoop env alert i req result w = (Inr (req, result), w)"
  by (subst followUpLoop.simps) (simp only: assms if_False)

lemma followUpLoop_query_error:
  assumes "i < maxFollowUpIterations \<and> Diagnosis_NeedsMoreInfo result
             \<and> length (Diagnosis_FollowUpQueries result) > 0"
    and "runFollowUpQueries env alert (Diagnosis_FollowUpQueries result) w = (Inl queryErr, w1)"
  shows "snd (followUpLoop env alert i req result w) = w1"
  by (subst followUpLoop.simps) (simp only: assms simp_thms if_True prod.case sum.case snd_conv)

lemma followUpLoop_diagnosis_error:
  assumes "i < maxFollowUpIterations \<and> Diagnosis_NeedsMoreInfo result
             \<and> length (Diagnosis_FollowUpQueries result) > 0"
    and "runFollowUpQueries env alert (Diagnosis_FollowUpQueries result) w
           = (Inr additionalCtx, w1)"
    and "Env_Diagnose env w1
           (req\<lparr>Request_K8sContext := Request_K8sContext req @ [CHR 0x0A] @ additionalCtx\<rparr>)
           = Inl e"
  shows "snd (followUpLoop env alert i req result w)
           = w1 @ [LLM_Diagnose
                     (req\<lparr>Request_K8sContext :=
                            Request_K8sContext req @ [CHR 0x0A] @ additionalCtx\<rparr>)]"
  by (subst followUpLoop.simps) (simp only: assms simp_thms if_True prod.case sum.case snd_conv)

lemma followUpLoop_next:
  assumes "i < maxFollowUpIterations \<and> Diagnosis_NeedsMoreInfo result
             \<and> length (Diagnosis_FollowUpQueries result) > 0"
    and "runFollowUpQueries env alert (Diagnosis_FollowUpQueries result) w
           = (Inr additionalCtx, w1)"
    and "Env_Diagnose env w1
           (req\<lparr>Request_K8sContext := Request_K8sContext req @ [CHR 0x0A] @ additionalCtx\<rparr>)
           = Inr result1"
  shows "followUpLoop env alert i req result w
           = followUpLoop env alert (i + 1)
               (req\<lparr>Request_K8sContext := Request_K8sContext req @ [CHR 0x0A] @ additionalCtx\<rparr>)
               result1
               (w1 @ [LLM_Diagnose
                        (req\<lparr>Request_K8sContext :=
                               Request_K8sContext req @ [CHR 0x0A] @ additionalCtx\<rparr>)])"
  by (subst followUpLoop.simps) (simp only: assms simp_thms if_True prod.case sum.case)

lemma followUpLoop_bound:
  "length (diagnoseCalls (snd (followUpLoop env alert i req result w)))
     \<le> length (diagnoseCalls w) + (maxFollowUpIterations - i)"
proof (induction env alert i req result w rule: followUpLoop.induct)
  case (1 env alert i req result w)
  show ?case
  proof (cases "i < maxFollowUpIterations \<and> Diagnosis_NeedsMoreInfo result
                 \<and> length (Diagnosis_FollowUpQueries result) > 0")
    case False
    show ?thesis by (simp add: followUpLoop_stop [OF False])
  next
    case True
    then have less: "i < maxFollowUpIterations" by simp
    obtain r w1 where
      q: "runFollowUpQueries env alert (Diagnosis_FollowUpQueries result) w = (r, w1)"
      by (cases "runFollowUpQueries env alert (Diagnosis_FollowUpQueries result) w") auto
    have w1: "diagnoseCalls w1 = diagnoseCalls w"
      using runFollowUpQueries_calls [of env alert "Diagnosis_FollowUpQueries result" w] q
      by simp
    show ?thesis
    proof (cases r)
      case (Inl queryErr)
      then have "snd (followUpLoop env alert i req result w) = w1"
        using followUpLoop_query_error [OF True] q by simp
      then show ?thesis using w1 by simp
    next
      case (Inr additionalCtx)
      let ?req = "req\<lparr>Request_K8sContext :=
                        Request_K8sContext req @ [CHR 0x0A] @ additionalCtx\<rparr>"
      have q': "runFollowUpQueries env alert (Diagnosis_FollowUpQueries result) w
                  = (Inr additionalCtx, w1)"
        using q Inr by simp
      show ?thesis
      proof (cases "Env_Diagnose env w1 ?req")
        case (Inl e)
        have "snd (followUpLoop env alert i req result w) = w1 @ [LLM_Diagnose ?req]"
          by (rule followUpLoop_diagnosis_error [OF True q' Inl])
        then show ?thesis using w1 less by (simp add: diagnoseCalls_append)
      next
        case diag: (Inr result1)
        have "length (diagnoseCalls (snd (followUpLoop env alert (i + 1) ?req result1
                                            (w1 @ [LLM_Diagnose ?req]))))
                \<le> length (diagnoseCalls (w1 @ [LLM_Diagnose ?req]))
                    + (maxFollowUpIterations - (i + 1))"
          using "1.IH" [OF True q' [symmetric] refl diag] .
        then show ?thesis
          using w1 less by (simp add: followUpLoop_next [OF True q' diag] diagnoseCalls_append)
      qed
    qed
  qed
qed

lemma followUpLoop_exact:
  "\<forall>v r. \<exists>res. Env_Diagnose env v r = Inr res \<and> Diagnosis_NeedsMoreInfo res
             \<and> Diagnosis_FollowUpQueries res \<noteq> [] \<Longrightarrow>
   Diagnosis_NeedsMoreInfo result \<Longrightarrow> Diagnosis_FollowUpQueries result \<noteq> [] \<Longrightarrow>
   length (diagnoseCalls (snd (followUpLoop env alert i req result w)))
     = length (diagnoseCalls w) + (maxFollowUpIterations - i)"
proof (induction env alert i req result w rule: followUpLoop.induct)
  case (1 env alert i req result w)
  note always = "1.prems"(1)
  show ?case
  proof (cases "i < maxFollowUpIterations")
    case False
    then have "\<not> (i < maxFollowUpIterations \<and> Diagnosis_NeedsMoreInfo result
                    \<and> length (Diagnosis_FollowUpQueries result) > 0)"
      by simp
    from followUpLoop_stop [OF this] show ?thesis using False by simp
  next
    case True
    then have cond: "i < maxFollowUpIterations \<and> Diagnosis_NeedsMoreInfo result
                       \<and> length (Diagnosis_FollowUpQueries result) > 0"
      using "1.prems"(2,3) by simp
    obtain additionalCtx where
      ctx: "fst (runFollowUpQueries env alert (Diagnosis_FollowUpQueries result) w)
              = Inr additionalCtx"
      using runFollowUpQueries_no_error [OF "1.prems"(3)] by blast
    obtain w1 where
      q: "runFollowUpQueries env alert (Diagnosis_FollowUpQueries result) w
            = (Inr additionalCtx, w1)"
      using ctx by (cases "runFollowUpQueries env alert (Diagnosis_FollowUpQueries result) w") auto
    have w1: "diagnoseCalls w1 = diagnoseCalls w"
      using runFollowUpQueries_calls [of env alert "Diagnosis_FollowUpQueries result" w] q
      by simp
    let ?req = "req\<lparr>Request_K8sContext :=
                      Request_K8sContext req @ [CHR 0x0A] @ additionalCtx\<rparr>"
    obtain result1 where
      diag: "Env_Diagnose env w1 ?req = Inr result1"
      and more: "Diagnosis_NeedsMoreInfo result1" "Diagnosis_FollowUpQueries result1 \<noteq> []"
      using always by blast
    have "length (diagnoseCalls (snd (followUpLoop env alert (i + 1) ?req result1
                                        (w1 @ [LLM_Diagnose ?req]))))
            = length (diagnoseCalls (w1 @ [LLM_Diagnose ?req]))
                + (maxFollowUpIterations - (i + 1))"
      using "1.IH" [OF cond q [symmetric] refl diag always more] .
    then show ?thesis
      using w1 True by (simp add: followUpLoop_next [OF cond q diag] diagnoseCalls_append)
  qed
qed

lemmas AnalyzeAlert_eval =
  AnalyzeAlert_def gatherK8sContext_def followUpLoop.simps runFollowUpQueries_def
  maxFollowUpIterations_def stubbornEnv_def sampleEnv_def stubbornResult_def zeroAlert_def
  Let_def timeNow_def generateID_def quoted_def

text \<open>
  C8 (as stated). A follow-up query error is said to stop the loop. This fails: when the
  description of the queried resource is not found in every round and the language model
  keeps asking, the failure is written into the context of the next diagnosis request and
  the loop runs all three follow-up rounds, four diagnosis calls in all.
\<close>

theorem AnalyzeAlert_continues_after_query_error:
  "fst (runFollowUpQueries stubbornEnv zeroAlert [''web-1''] [])
     = Inr (''query '' @ quoted ''web-1'' @ '': error: not found'')
   \<and> describeCalls (snd (AnalyzeAlert stubbornEnv zeroAlert []))
       = [''web-1'', ''web-1'', ''web-1'']
   \<and> length (diagnoseCalls (snd (AnalyzeAlert stubbornEnv zeroAlert []))) = 4
   \<and> map Request_K8sContext (diagnoseCalls (snd (AnalyzeAlert stubbornEnv zeroAlert [])))
       = [''cluster'',
          ''cluster'' @ [CHR 0x0A] @ ''query '' @ quoted ''web-1'' @ '': error: not found'',
          ''cluster'' @ [CHR 0x0A] @ ''query '' @ quoted ''web-1'' @ '': error: not found''
            @ [CHR 0x0A] @ ''query '' @ quoted ''web-1'' @ '': error: not found'',
          ''cluster'' @ [CHR 0x0A] @ ''query '' @ quoted ''web-1'' @ '': error: not found''
            @ [CHR 0x0A] @ ''query '' @ quoted ''web-1'' @ '': error: not found''
            @ [CHR 0x0A] @ ''query '' @ quoted ''web-1'' @ '': error: not found'']"
  by (simp add: AnalyzeAlert_eval)

text \<open>
  C8 (amended). \<open>AnalyzeAlert\<close> always returns, and it adds at most 4 diagnosis calls to the
  history, whatever the language model and the cluster answer. A failing follow-up query
  does not stop the loop: for a non-empty list of queries \<open>runFollowUpQueries\<close> sends every
  query and returns a context text, never an error (so the branch that stops the loop is
  not taken); and when every diagnosis asks for more information with a non-empty list of
  queries, exactly 4 diagnosis calls are made, whatever the queries return.
\<close>

theorem AnalyzeAlert_diagnosis_calls:
  "length (diagnoseCalls (snd (AnalyzeAlert env alert w))) \<le> length (diagnoseCalls w) + 4
   \<and> (queries \<noteq> [] \<longrightarrow>
        (\<exists>ctx. fst (runFollowUpQueries env alert queries v) = Inr ctx)
        \<and> snd (runFollowUpQueries env alert queries v)
            = v @ map (\<lambda>q. K8s_DescribeResource (Alert_Namespace alert) ''pod'' q) queries)
   \<and> ((\<forall>v r. \<exists>res. Env_Diagnose env v r = Inr res \<and> Diagnosis_NeedsMoreInfo res
                  \<and> Diagnosis_FollowUpQueries res \<noteq> []) \<longrightarrow>
        length (diagnoseCalls (snd (AnalyzeAlert env alert w))) = length (diagnoseCalls w) + 4)"
proof -
  obtain gathered wg where g: "gatherK8sContext env alert w = (gathered, wg)"
    by (cases "gatherK8sContext env alert w") auto
  have wg: "diagnoseCalls wg = diagnoseCalls w"
    using gatherK8sContext_calls [of env alert w] g by simp
  define k8sCtx where
    "k8sCtx = (case gathered of
                 Inl e \<Rightarrow> ''partial k8s context (error: '' @ e @ '')''
               | Inr c \<Rightarrow> c)"
  define req where
    "req = \<lparr>Request_AlertSummary =
               ''['' @ Alert_Severity alert @ ''] '' @ Alert_Title alert @ '': ''
                 @ Alert_Description alert,
             Request_K8sContext = k8sCtx, Request_PreviousActions = [],
             Request_Environment = Alert_Environment alert, Request_Constraints = []\<rparr>"
  let ?w0 = "wg @ [Time_Now]"
  have calls:
    "length (diagnoseCalls (snd (AnalyzeAlert env alert w))) \<le> length (diagnoseCalls w) + 4
     \<and> ((\<forall>v r. \<exists>res. Env_Diagnose env v r = Inr res \<and> Diagnosis_NeedsMoreInfo res
                    \<and> Diagnosis_FollowUpQueries res \<noteq> []) \<longrightarrow>
          length (diagnoseCalls (snd (AnalyzeAlert env alert w)))
            = length (diagnoseCalls w) + 4)"
  proof (cases "Env_Diagnose env ?w0 req")
    case (Inl e)
    then have "snd (AnalyzeAlert env alert w) = ?w0 @ [LLM_Diagnose req]"
      by (simp add: AnalyzeAlert_def g Let_def timeNow_def k8sCtx_def req_def)
    then have few: "length (diagnoseCalls (snd (AnalyzeAlert env alert w)))
                      = length (diagnoseCalls w) + 1"
      using wg by (simp add: diagnoseCalls_append)
    have never: "\<not> (\<forall>v r. \<exists>res. Env_Diagnose env v r = Inr res \<and> Diagnosis_NeedsMoreInfo res
                           \<and> Diagnosis_FollowUpQueries res \<noteq> [])"
    proof
      assume "\<forall>v r. \<exists>res. Env_Diagnose env v r = Inr res \<and> Diagnosis_NeedsMoreInfo res
                        \<and> Diagnosis_FollowUpQueries res \<noteq> []"
      then obtain res where "Env_Diagnose env ?w0 req = Inr res" by blast
      then show False using Inl by simp
    qed
    show ?thesis using few never by simp
  next
    case (Inr result)
    let ?w1 = "?w0 @ [LLM_Diagnose req]"
    obtain r wl where loop: "followUpLoop env alert 0 req result ?w1 = (r, wl)"
      by (cases "followUpLoop env alert 0 req result ?w1") auto
    have same: "diagnoseCalls (snd (AnalyzeAlert env alert w)) = diagnoseCalls wl"
      using Inr loop
      by (cases r)
        (auto simp add: AnalyzeAlert_def g Let_def timeNow_def generateID_def k8sCtx_def
           req_def diagnoseCalls_append)
    have start: "length (diagnoseCalls ?w1) = length (diagnoseCalls w) + 1"
      using wg by (simp add: diagnoseCalls_append)
    have bound: "length (diagnoseCalls wl) \<le> length (diagnoseCalls ?w1) + 3"
      using followUpLoop_bound [of env alert 0 req result ?w1] loop
      by (simp add: maxFollowUpIterations_def)
    have exact: "length (diagnoseCalls wl) = length (diagnoseCalls ?w1) + 3"
      if always: "\<forall>v r. \<exists>res. Env_Diagnose env v r = Inr res \<and> Diagnosis_NeedsMoreInfo res
                          \<and> Diagnosis_FollowUpQueries res \<noteq> []"
    proof -
      have "Diagnosis_NeedsMoreInfo result \<and> Diagnosis_FollowUpQueries result \<noteq> []"
        using always Inr by (metis sum.inject(2))
      then show ?thesis
        using followUpLoop_exact [OF always, of result alert 0 req ?w1] loop
        by (simp add: maxFollowUpIterations_def)
    qed
    show ?thesis using same start bound exact by auto
  qed
  show ?thesis
    using calls runFollowUpQueries_no_error [of queries env alert v]
      runFollowUpQueries_world [of env alert queries v]
    by blast
qed

theorem AnalyzeAlert_diagnosis_calls_witness:
  "length (diagnoseCalls (snd (AnalyzeAlert stubbornEnv sampleAlert []))) = 4
   \<and> (\<exists>ctx. fst (runFollowUpQueries stubbornEnv sampleAlert [''web-1'', ''db-0''] []) = Inr ctx)
   \<and> snd (runFollowUpQueries stubbornEnv sampleAlert [''web-1'', ''db-0''] [])
       = [K8s_DescribeResource ''shop'' ''pod'' ''web-1'',
          K8s_DescribeResource ''shop'' ''pod'' ''db-0'']"
  using AnalyzeAlert_diagnosis_calls
          [of stubbornEnv sampleAlert "[]" "[''web-1'', ''db-0'']" "[]"]
  by (simp add: stubbornEnv_def sampleEnv_def stubbornResult_def sampleAlert_def zeroAlert_def)

subsection \<open>The final status of an alert\<close>

lemma ValidateCommand_ls_tmp:
  "ValidateCommand defaultTestWhitelist [''ls'', ''/tmp'']
     = \<lparr>Validation_Allowed = True, Validation_Reason = ''command allowed'',
        Validation_Risk = ''low''\<rparr>"
  by (simp add: ValidateCommand_def ValidateExecCommand_def IsExecAllowed_def Fields_samples
        ToLower_def toLowerByte_def defaultTestWhitelist_exec
        defaultTestWhitelist_blockedNS IsNamespaceBlocked_def HasPrefix_def TrimPrefix_def)

lemmas HandleAlert_eval =
  HandleAlert_def actOnAnalysis_def evaluatePolicy_def Evaluate_def Plan_def
  validateCommands_def inferActionType_def toRiskLevel_def riskOrder_def
  AnalyzeAlert_def gatherK8sContext_def followUpLoop.simps maxFollowUpIterations_def
  executeAction_def execRequest_def newAuditLog_def logAudit_def timeNow_def generateID_def
  Let_def pipelineEnv_def sampleEnv_def sampleExec_def helpfulResult_def receivedAlert_def
  sampleAlert_def zeroAlert_def zeroPolicy_def samplePolicy_def Fields_samples
  ValidateCommand_ls_tmp
  NewAction_def Action_WithEnvironment_def Action_WithNamespace_def Action_WithReversible_def
  Action_WithStatus_def Action_WithExecutedAt_def Action_Fail_def Action_Complete_def
  Alert_WithStatus_def Alert_WithThreadID_def NewAnalysis_def Analysis_WithDiagnosis_def
  Analysis_WithTokenUsage_def Analysis_WithK8sContext_def NewAuditLog_def
  Audit_WithActionID_def isRiskAcceptable_def

text \<open>
  C2. The final status is claimed to be resolved only when every planned action completed
  without approval and without being denied. With a disabled policy the only planned action
  is denied: it is stored as rejected, no command is sent to the cluster, \<open>HandleAlert\<close>
  returns no error, and the last update of the alert sets it resolved.
\<close>

theorem HandleAlert_denied_resolved:
  "fst (HandleAlert (pipelineEnv zeroPolicy) receivedAlert []) = None
   \<and> map Action_Status (actionsCreated (snd (HandleAlert (pipelineEnv zeroPolicy) receivedAlert [])))
       = [ActionStatusRejected]
   \<and> execCalls (snd (HandleAlert (pipelineEnv zeroPolicy) receivedAlert [])) = []
   \<and> map Alert_Status (alertUpdates (snd (HandleAlert (pipelineEnv zeroPolicy) receivedAlert [])))
       = [AlertStatusReceived, AlertStatusAnalyzing, AlertStatusActing, AlertStatusResolved]"
  by (simp add: HandleAlert_eval)

text \<open>
  The other branches of the loop behave as claimed: an action that needs approval is stored
  as pending and the alert stays acting; an action that is executed successfully leaves the
  alert resolved.
\<close>

lemma HandleAlert_pending_not_resolved:
  "fst (HandleAlert (pipelineEnv (samplePolicy PolicyModeApprovalRequired RiskHigh))
          receivedAlert []) = None
   \<and> map Action_Status
         (actionsCreated
            (snd (HandleAlert (pipelineEnv (samplePolicy PolicyModeApprovalRequired RiskHigh))
                    receivedAlert [])))
       = [ActionStatusPending]
   \<and> map Alert_Status
         (alertUpdates
            (snd (HandleAlert (pipelineEnv (samplePolicy PolicyModeApprovalRequired RiskHigh))
                    receivedAlert [])))
       = [AlertStatusReceived, AlertStatusAnalyzing, AlertStatusActing, AlertStatusActing]"
  by (simp add: HandleAlert_eval)

lemma HandleAlert_executed_resolved:
  "fst (HandleAlert (pipelineEnv (samplePolicy PolicyModeAutoFix RiskMedium)) receivedAlert [])
     = None
   \<and> execCalls
         (snd (HandleAlert (pipelineEnv (samplePolicy PolicyModeAutoFix RiskMedium))
                 receivedAlert []))
       = [\<lparr>Exec_Namespace = ''shop'', Exec_Pod = [], Exec_Container = [],
           Exec_Command = [''ls'', ''/tmp''], Exec_Timeout = 60\<rparr>]
   \<and> map Alert_Status
         (alertUpdates
            (snd (HandleAlert (pipelineEnv (samplePolicy PolicyModeAutoFix RiskMedium))
                    receivedAlert [])))
       = [AlertStatusReceived, AlertStatusAnalyzing, AlertStatusActing, AlertStatusResolved]"
  by (simp add: HandleAlert_eval)

end
